theory Spec2Isabelle
  imports Main "HOL-Library.Sublist" "HOL-Library.AList" "HOL-Library.Word"
begin

section \<open>The cluster agent of \<^verbatim>\<open>src/client/client.go\<close>\<close>

text \<open>
  The development embeds the node lifecycle and allocation reconciliation code of
  \<^verbatim>\<open>client.go\<close>. Go structs are records, Go maps are partial functions (or
  association lists where the code iterates over one and the iteration order would
  otherwise be lost), Go errors are their message strings, and every effect of a method
  (a log line, an RPC, a timer, a goroutine, a file write) is appended to the client's
  trace. What the environment decides (the result of an RPC, a random number, which case
  of a \<^verbatim>\<open>select\<close> is ready) is an explicit argument of the embedded method.
\<close>

subsection \<open>Durations and the constants of the file\<close>

text \<open>\<^verbatim>\<open>time.Duration\<close> counts nanoseconds. All durations of the file are far below
  the 64-bit range, so they are modelled as unbounded integers.\<close>

type_synonym Duration = int

definition Millisecond :: Duration where "Millisecond = 1000000"
definition Second :: Duration where "Second = 1000000000"

definition registerRetryIntv :: Duration where "registerRetryIntv = 15 * Second"
definition getAllocRetryIntv :: Duration where "getAllocRetryIntv = 30 * Second"
definition devModeRetryIntv :: Duration where "devModeRetryIntv = Second"
definition initialHeartbeatStagger :: Duration where "initialHeartbeatStagger = 10 * Second"
definition allocSyncIntv :: Duration where "allocSyncIntv = 200 * Millisecond"
definition allocSyncRetryIntv :: Duration where "allocSyncRetryIntv = 5 * Second"
definition registerErrGrace :: Duration where "registerErrGrace = 10 * Second"

text \<open>Modelled from the spec: \<^verbatim>\<open>lib.RandomStagger\<close> belongs to an imported library;
  the spec gives its range as \<open>rand[0, base)\<close>. The argument \<open>rnd\<close> is the random
  number the call draws.\<close>

definition RandomStagger :: "Duration \<Rightarrow> nat \<Rightarrow> Duration" where
  "RandomStagger intv rnd = (if intv = 0 then 0 else int rnd mod intv)"

subsection \<open>Errors and strings\<close>

text \<open>A Go \<^verbatim>\<open>error\<close> is modelled by the text \<^verbatim>\<open>err.Error()\<close> returns;
  \<^verbatim>\<open>fmt.Errorf("prefix: %v", err)\<close> is string concatenation.\<close>

type_synonym error = string

text \<open>\<^verbatim>\<open>strings.Contains(s, substr)\<close>.\<close>

fun Contains :: "string \<Rightarrow> string \<Rightarrow> bool" where
  "Contains [] substr = (substr = [])"
| "Contains (c # s) substr = (prefix substr (c # s) \<or> Contains s substr)"

subsection \<open>Data of \<^verbatim>\<open>udup/server/structs\<close>\<close>

text \<open>Modelled from the spec: the package \<^verbatim>\<open>structs\<close> is not among the sources. An
  allocation has the fields \<^verbatim>\<open>client.go\<close> reads or writes (\<open>ID\<close>, \<open>NodeID\<close>,
  \<open>PreviousAllocation\<close>, \<open>TaskStates\<close>, \<open>ClientStatus\<close>, \<open>ClientDescription\<close>), and of
  the rest what the spec lists: the modify index (a \<^verbatim>\<open>uint64\<close>) and an opaque payload.\<close>

record Allocation =
  ID :: string
  NodeID :: string
  PreviousAllocation :: string
  AllocModifyIndex :: "64 word"
  Payload :: string
  TaskStates :: "string \<rightharpoonup> string"
  ClientStatus :: string
  ClientDescription :: string

text \<open>The value \<^verbatim>\<open>new(structs.Allocation)\<close> points to: every field zero.\<close>

definition zero_Allocation :: Allocation where
  "zero_Allocation =
     \<lparr>ID = [], NodeID = [], PreviousAllocation = [], AllocModifyIndex = 0, Payload = [],
      TaskStates = Map.empty, ClientStatus = [], ClientDescription = []\<rparr>"

record Port =
  Label :: string
  Value :: int

record NetworkResource =
  Device :: string
  IP :: string
  MBits :: int
  ReservedPorts :: "Port list"

record Resources =
  CPU :: int
  MemoryMB :: int
  Networks :: "NetworkResource list"

text \<open>A node. The pointers \<^verbatim>\<open>setupNode\<close> replaces when they are nil
  (\<^verbatim>\<open>config.Node\<close>, \<^verbatim>\<open>node.Resources\<close>, \<^verbatim>\<open>node.Reserved\<close>, the three maps) are
  modelled by the values they point to, nil being the zero value it is replaced with.\<close>

record Node =
  ID' :: string
  Name :: string
  Datacenter :: string
  Status :: string
  Attributes :: "string \<rightharpoonup> string"
  Meta :: "string \<rightharpoonup> string"
  Links :: "string \<rightharpoonup> string"
  NodeResources :: Resources
  Reserved :: Resources

definition NodeStatusInit :: string where "NodeStatusInit = ''initializing''"
definition NodeStatusReady :: string where "NodeStatusReady = ''ready''"

subsection \<open>Configuration, runners and the client\<close>

record Config =
  DevMode :: bool
  StateDir :: string
  AllocDir :: string
  Region :: string
  Servers :: "string list"
  GloballyReservedPorts :: "int list"
  whitelist :: "string list"
  Node :: Node

text \<open>Modelled from the spec: the Alloc Runner is an opaque supervisor outside the
  sources; \<^verbatim>\<open>NewAllocRunner\<close> keeps the allocation it is given and
  \<^verbatim>\<open>Alloc()\<close> returns it.\<close>

record AllocRunner =
  alloc' :: Allocation

definition NewAllocRunner :: "Config \<Rightarrow> Allocation \<Rightarrow> AllocRunner" where
  "NewAllocRunner cfg a = \<lparr>alloc' = a\<rparr>"

definition Alloc :: "AllocRunner \<Rightarrow> Allocation" where
  "Alloc ar = alloc' ar"

text \<open>Arguments of a \<^verbatim>\<open>Printf\<close> call, goroutines started by a \<^verbatim>\<open>go\<close> statement,
  and the effects a method leaves in the trace.\<close>

datatype arg = S string | N int | SL "string list"

datatype goroutine =
    Run string
  | fingerprintPeriodic string Duration
  | Loop string

text \<open>A call of \<^verbatim>\<open>c.RPC(method, args, reply)\<close>: the method with the arguments the
  code fills in.\<close>

datatype rpc_request =
    NodeRegister Node string
  | NodeUpdateStatus string string string
  | NodeUpdateAlloc "Allocation list" string
  | NodeGetClientAllocs string "64 word"
  | AllocGetAllocs "string list"

datatype effect =
    Printf string "arg list"
  | RPC rpc_request
  | Go goroutine
  | After Duration
  | NewTicker Duration
  | TickerStop
  | WriteFile string string nat
  | MkdirAll string nat
  | AddPrimaryServer string

record Client =
  config :: Config
  start :: int
  configCopy :: Config
  lastHeartbeatFromQuorum :: bool
  lastHeartbeat :: int
  heartbeatTTL :: Duration
  allocs :: "string \<rightharpoonup> AllocRunner"
  blockedAllocations :: "string \<rightharpoonup> Allocation"
  allocUpdates :: "Allocation list"
  trace :: "effect list"

definition emit :: "effect list \<Rightarrow> Client \<Rightarrow> Client" where
  "emit es c = c\<lparr>trace := trace c @ es\<rparr>"

subsection \<open>\<^verbatim>\<open>updateAllocStatus\<close>\<close>

text \<open>The \<^verbatim>\<open>select\<close> of \<^verbatim>\<open>updateAllocStatus\<close> either sends on the bounded channel
  \<^verbatim>\<open>allocUpdates\<close> or sees the shutdown channel closed; which one is ready is the
  environment's choice.\<close>

datatype send_case = SendReady | ShutdownReady

definition stripped :: "Client \<Rightarrow> Allocation \<Rightarrow> Allocation" where
  "stripped c a =
     zero_Allocation
       \<lparr>ID := ID a,
        NodeID := ID' (Node (config c)),
        TaskStates := TaskStates a,
        ClientStatus := ClientStatus a,
        ClientDescription := ClientDescription a\<rparr>"

definition updateAllocStatus :: "Client \<Rightarrow> Allocation \<Rightarrow> send_case \<Rightarrow> Client" where
  "updateAllocStatus c a sel =
     (case sel of
        SendReady \<Rightarrow> c\<lparr>allocUpdates := allocUpdates c @ [stripped c a]\<rparr>
      | ShutdownReady \<Rightarrow> c)"

subsection \<open>Adding allocations: \<^verbatim>\<open>addAlloc\<close> and the loop of \<^verbatim>\<open>runAllocs\<close>\<close>

definition getAllocRunners :: "Client \<Rightarrow> (string \<rightharpoonup> AllocRunner)" where
  "getAllocRunners c = allocs c"

text \<open>\<^verbatim>\<open>addAlloc\<close> returns the error \<^verbatim>\<open>nil\<close> on its only path.\<close>

definition addAlloc :: "Client \<Rightarrow> Allocation \<Rightarrow> error option \<times> Client" where
  "addAlloc c a =
     (let ar = NewAllocRunner (configCopy c) a;
          c1 = emit [Go (Run (ID a))] c
      in (None, c1\<lparr>allocs := (allocs c1)(ID a \<mapsto> ar)\<rparr>))"

text \<open>One round of the loop ``Start the new allocations'' of \<^verbatim>\<open>runAllocs\<close>, for the
  added allocation \<open>add\<close>. \<^verbatim>\<open>Terminated\<close> is a method of \<^verbatim>\<open>structs.Allocation\<close>, which
  the sources do not hold: it is an argument, and what is proved holds for every such
  predicate.\<close>

definition runAllocs_add :: "(Allocation \<Rightarrow> bool) \<Rightarrow> Client \<Rightarrow> Allocation \<Rightarrow> Client" where
  "runAllocs_add Terminated c add =
     (if (case getAllocRunners c (PreviousAllocation add) of
            Some ar \<Rightarrow> \<not> Terminated (Alloc ar)
          | None \<Rightarrow> False)
      then
        (emit [Printf ''[DEBUG] client: added alloc %q to blocked queue'' [S (ID add)]] c)
          \<lparr>blockedAllocations := (blockedAllocations c)(PreviousAllocation add \<mapsto> add)\<rparr>
      else
        (case addAlloc c add of
           (Some err, c') \<Rightarrow>
             emit [Printf ''[ERR] client: failed to add alloc '%s': %v''
                     [S (ID add), S err]] c'
         | (None, c') \<Rightarrow> c'))"

definition runAllocs_added :: "(Allocation \<Rightarrow> bool) \<Rightarrow> Client \<Rightarrow> Allocation list \<Rightarrow> Client" where
  "runAllocs_added Terminated c added = fold (\<lambda>add c. runAllocs_add Terminated c add) added c"

subsection \<open>\<^verbatim>\<open>retryIntv\<close> and the sync loop \<^verbatim>\<open>allocSync\<close>\<close>

definition retryIntv :: "Client \<Rightarrow> Duration \<Rightarrow> nat \<Rightarrow> Duration" where
  "retryIntv c base rnd =
     (if DevMode (config c) then devModeRetryIntv else base + RandomStagger base rnd)"

text \<open>The local variables of \<^verbatim>\<open>allocSync\<close>: the flag, the period of the current ticker and
  the map \<^verbatim>\<open>updates\<close>, an association list with one pair per key (the batch sent is the
  map's values in an order Go leaves open; the list fixes the order of first insertion).\<close>

record SyncState =
  staggered :: bool
  syncTicker :: Duration
  updates :: "(string \<times> Allocation) list"

definition init_SyncState :: SyncState where
  "init_SyncState = \<lparr>staggered = False, syncTicker = allocSyncIntv, updates = []\<rparr>"

text \<open>What the \<^verbatim>\<open>select\<close> of the loop takes next: the shutdown channel, a message from the
  channel \<^verbatim>\<open>allocUpdates\<close>, or a tick, for which the environment gives the result of the
  RPC (should one be made) and the random number of \<^verbatim>\<open>retryIntv\<close>.\<close>

datatype sync_event = Shutdown | Recv | Tick "error option" nat

text \<open>The case \<^verbatim>\<open>alloc := <-c.allocUpdates\<close>; on an empty channel the case is not ready and
  nothing happens.\<close>

definition allocSync_recv :: "(Allocation \<Rightarrow> bool) \<Rightarrow> Client \<Rightarrow> SyncState \<Rightarrow> Client \<times> SyncState" where
  "allocSync_recv Terminated c st =
     (case allocUpdates c of
        [] \<Rightarrow> (c, st)
      | alloc # rest \<Rightarrow>
          let c1 = c\<lparr>allocUpdates := rest\<rparr>;
              st1 = st\<lparr>updates := AList.update (ID alloc) alloc (updates st)\<rparr>
          in (case blockedAllocations c1 (ID alloc) of
                Some blockedAlloc \<Rightarrow>
                  if Terminated alloc then
                    let c3 = (case addAlloc c1 blockedAlloc of
                                (Some err, c2) \<Rightarrow>
                                  emit [Printf ''[ERR] client: failed to add alloc which was previously blocked %q: %v''
                                          [S (ID blockedAlloc), S err]] c2
                              | (None, c2) \<Rightarrow> c2)
                    in (c3\<lparr>blockedAllocations :=
                             (blockedAllocations c3)(PreviousAllocation blockedAlloc := None)\<rparr>, st1)
                  else (c1, st1)
              | None \<Rightarrow> (c1, st1)))"

text \<open>The case \<^verbatim>\<open><-syncTicker.C\<close>.\<close>

definition allocSync_tick :: "Client \<Rightarrow> SyncState \<Rightarrow> error option \<Rightarrow> nat \<Rightarrow> Client \<times> SyncState" where
  "allocSync_tick c st result rnd =
     (if length (updates st) = 0 then (c, st)
      else
        let sync = map snd (updates st);
            c1 = emit [RPC (NodeUpdateAlloc sync (Region (config c)))] c
        in (case result of
              Some err \<Rightarrow>
                (emit [Printf ''[ERR] client: failed to update allocations: %v'' [S err],
                       TickerStop, NewTicker (retryIntv c allocSyncRetryIntv rnd)] c1,
                 st\<lparr>syncTicker := retryIntv c allocSyncRetryIntv rnd, staggered := True\<rparr>)
            | None \<Rightarrow>
                if staggered st
                then (emit [TickerStop, NewTicker allocSyncIntv] c1,
                      st\<lparr>updates := [], syncTicker := allocSyncIntv, staggered := False\<rparr>)
                else (c1, st\<lparr>updates := []\<rparr>)))"

text \<open>The loop, on the finite list of events the environment has offered so far; it
  returns at \<open>Shutdown\<close>.\<close>

fun allocSync :: "(Allocation \<Rightarrow> bool) \<Rightarrow> Client \<Rightarrow> SyncState \<Rightarrow> sync_event list \<Rightarrow> Client \<times> SyncState" where
  "allocSync Terminated c st [] = (c, st)"
| "allocSync Terminated c st (Shutdown # evs) = (emit [TickerStop] c, st)"
| "allocSync Terminated c st (Recv # evs) =
     (case allocSync_recv Terminated c st of (c', st') \<Rightarrow> allocSync Terminated c' st' evs)"
| "allocSync Terminated c st (Tick result rnd # evs) =
     (case allocSync_tick c st result rnd of (c', st') \<Rightarrow> allocSync Terminated c' st' evs)"

text \<open>The RPCs of a trace, in order.\<close>

fun rpcs :: "effect list \<Rightarrow> rpc_request list" where
  "rpcs [] = []"
| "rpcs (RPC r # es) = r # rpcs es"
| "rpcs (e # es) = rpcs es"

text \<open>The blocked index as the code keeps it: an allocation is stored under its own
  \<open>PreviousAllocation\<close>.\<close>

definition blocked_keyed :: "Client \<Rightarrow> bool" where
  "blocked_keyed c = (\<forall>k b. blockedAllocations c k = Some b \<longrightarrow> PreviousAllocation b = k)"

text \<open>The local state of the sync loop as the code keeps it: the keys of \<^verbatim>\<open>updates\<close> are
  the IDs of the messages stored under them, and outside the staggered mode the ticker
  has the period \<^verbatim>\<open>allocSyncIntv\<close>.\<close>

definition sync_inv :: "SyncState \<Rightarrow> bool" where
  "sync_inv st =
     (distinct (map fst (updates st))
      \<and> (\<forall>x \<in> set (updates st). ID (snd x) = fst x)
      \<and> (\<not> staggered st \<longrightarrow> syncTicker st = allocSyncIntv))"

subsection \<open>The allocation watcher \<^verbatim>\<open>watchAllocations\<close>\<close>

text \<open>The reply of \<^verbatim>\<open>Node.GetClientAllocs\<close>: the map from allocation ID to modify index
  (an association list, ranged over in its order) and the index of the reply.\<close>

record NodeClientAllocsResponse =
  Allocs :: "(string \<times> 64 word) list"
  Index :: "64 word"

record allocUpdates_rec =
  pulled :: "string \<rightharpoonup> Allocation"
  filtered :: "string set"

text \<open>The places of one round where the loop looks at the shutdown channel.\<close>

datatype watch_point = Retry1 | Check1 | Retry2 | Check2 | Send

text \<open>What the environment decides in one round: the alloc index at that time (the
  reconciler, another goroutine, changes it between rounds), the results of the two RPCs,
  the random number of \<^verbatim>\<open>retryIntv\<close>, and where the shutdown channel is found closed.\<close>

record watch_env =
  allocs_now :: "string \<rightharpoonup> AllocRunner"
  getClientAllocs :: "error + NodeClientAllocsResponse"
  getAllocs :: "error + Allocation list"
  rnd_retry :: nat
  shutdownCh :: "watch_point \<Rightarrow> bool"

text \<open>The local state of the watcher: \<^verbatim>\<open>req.MinQueryIndex\<close> and what it has sent on the
  channel \<^verbatim>\<open>updates\<close>.\<close>

record WatchState =
  MinQueryIndex :: "64 word"
  sent :: "allocUpdates_rec list"

text \<open>The pull set and the filtered set of a reply. \<^verbatim>\<open>shouldUpdate\<close> is a method of the
  Alloc Runner and an argument here.\<close>

definition wants_pull :: "(AllocRunner \<Rightarrow> 64 word \<Rightarrow> bool) \<Rightarrow> (string \<rightharpoonup> AllocRunner)
    \<Rightarrow> string \<times> 64 word \<Rightarrow> bool" where
  "wants_pull shouldUpdate runners e =
     (case runners (fst e) of None \<Rightarrow> True | Some runner \<Rightarrow> shouldUpdate runner (snd e))"

definition pull_set :: "(AllocRunner \<Rightarrow> 64 word \<Rightarrow> bool) \<Rightarrow> (string \<rightharpoonup> AllocRunner)
    \<Rightarrow> NodeClientAllocsResponse \<Rightarrow> string list" where
  "pull_set shouldUpdate runners resp =
     map fst (filter (wants_pull shouldUpdate runners) (Allocs resp))"

definition filtered_set :: "(AllocRunner \<Rightarrow> 64 word \<Rightarrow> bool) \<Rightarrow> (string \<rightharpoonup> AllocRunner)
    \<Rightarrow> NodeClientAllocsResponse \<Rightarrow> string set" where
  "filtered_set shouldUpdate runners resp =
     fst ` set (filter (\<lambda>e. \<not> wants_pull shouldUpdate runners e) (Allocs resp))"

text \<open>The end of a round, from ``Update the query index'' on. The Boolean result tells
  whether the loop goes on.\<close>

definition watch_finish :: "Client \<Rightarrow> WatchState \<Rightarrow> NodeClientAllocsResponse \<Rightarrow> Allocation list
    \<Rightarrow> string set \<Rightarrow> watch_env \<Rightarrow> Client \<times> WatchState \<times> bool" where
  "watch_finish c ws resp allocsResp filt env =
     (let ws1 = (if Index resp > MinQueryIndex ws then ws\<lparr>MinQueryIndex := Index resp\<rparr> else ws);
          update = \<lparr>pulled = fold (\<lambda>a m. m(ID a \<mapsto> a)) allocsResp Map.empty, filtered = filt\<rparr>
      in if shutdownCh env Send then (c, ws1, False)
         else (c, ws1\<lparr>sent := sent ws1 @ [update]\<rparr>, True))"

definition watch_round :: "(AllocRunner \<Rightarrow> 64 word \<Rightarrow> bool) \<Rightarrow> Client \<Rightarrow> WatchState \<Rightarrow> watch_env
    \<Rightarrow> Client \<times> WatchState \<times> bool" where
  "watch_round shouldUpdate c ws env =
     (let c1 = emit [RPC (NodeGetClientAllocs (ID' (Node (config c))) (MinQueryIndex ws))]
                 (c\<lparr>allocs := allocs_now env\<rparr>)
      in case getClientAllocs env of
           Inl err \<Rightarrow>
             (emit [Printf ''[ERR] client: failed to query for node allocations: %v'' [S err],
                    After (retryIntv c getAllocRetryIntv (rnd_retry env))] c1,
              ws, \<not> shutdownCh env Retry1)
         | Inr resp \<Rightarrow>
             if shutdownCh env Check1 then (c1, ws, False)
             else
               let runners = getAllocRunners c1;
                   pull = pull_set shouldUpdate runners resp;
                   filt = filtered_set shouldUpdate runners resp;
                   c2 = emit [Printf ''[DEBUG] client: updated allocations at index %d (pulled %d) (filtered %d)''
                                [N (uint (Index resp)), N (int (length pull)), N (int (card filt))]] c1
               in if length pull \<noteq> 0
                  then
                    let c3 = emit [RPC (AllocGetAllocs pull)] c2
                    in (case getAllocs env of
                          Inl err \<Rightarrow>
                            (emit [Printf ''[ERR] client: failed to query updated allocations: %v'' [S err],
                                   After (retryIntv c getAllocRetryIntv (rnd_retry env))] c3,
                             ws, \<not> shutdownCh env Retry2)
                        | Inr allocsResp \<Rightarrow>
                            if shutdownCh env Check2 then (c3, ws, False)
                            else watch_finish c3 ws resp allocsResp filt env)
                  else watch_finish c2 ws resp [] filt env)"

text \<open>The loop on the rounds the environment has offered so far; it returns when a round
  sees the shutdown channel closed.\<close>

fun watchAllocations :: "(AllocRunner \<Rightarrow> 64 word \<Rightarrow> bool) \<Rightarrow> Client \<Rightarrow> WatchState
    \<Rightarrow> watch_env list \<Rightarrow> Client \<times> WatchState" where
  "watchAllocations shouldUpdate c ws [] = (c, ws)"
| "watchAllocations shouldUpdate c ws (env # envs) =
     (case watch_round shouldUpdate c ws env of
        (c', ws', goes_on) \<Rightarrow>
          if goes_on then watchAllocations shouldUpdate c' ws' envs else (c', ws'))"

text \<open>A round reaches the statement that updates the query index: the first RPC
  answered, and the second one, when the pull set is not empty, answered too, with no
  shutdown seen at the two checks.\<close>

definition reaches_update :: "(AllocRunner \<Rightarrow> 64 word \<Rightarrow> bool) \<Rightarrow> watch_env \<Rightarrow> bool" where
  "reaches_update shouldUpdate env =
     (case getClientAllocs env of
        Inl err \<Rightarrow> False
      | Inr resp \<Rightarrow>
          \<not> shutdownCh env Check1
          \<and> (pull_set shouldUpdate (allocs_now env) resp = []
             \<or> (case getAllocs env of Inl err \<Rightarrow> False | Inr as \<Rightarrow> \<not> shutdownCh env Check2)))"

definition resp_Index :: "watch_env \<Rightarrow> 64 word" where
  "resp_Index env = (case getClientAllocs env of Inl err \<Rightarrow> 0 | Inr resp \<Rightarrow> Index resp)"

subsection \<open>Registration and the heartbeat loop\<close>

text \<open>The reply of \<^verbatim>\<open>Node.Register\<close> and \<^verbatim>\<open>Node.UpdateStatus\<close>, with the fields the
  spec lists.\<close>

record NodeUpdateResponse =
  HeartbeatTTL :: Duration
  EvalIDs :: "string list"
  Servers' :: "string list"
  NumNodes :: int
  LeaderRPCAddr :: string
  Index' :: "64 word"

text \<open>\<^verbatim>\<open>registerNode\<close>, given the result of the RPC and the time \<open>now\<close> at which
  \<^verbatim>\<open>time.Since\<close> and \<^verbatim>\<open>time.Now\<close> read the clock.\<close>

definition registerNode :: "Client \<Rightarrow> error + NodeUpdateResponse \<Rightarrow> int \<Rightarrow> error option \<times> Client" where
  "registerNode c result now =
     (let node = Node (config c);
          c1 = emit [RPC (NodeRegister node (Region (config c)))] c
      in case result of
           Inl err \<Rightarrow>
             if now - start c > registerErrGrace
             then (Some (''failed to register node: '' @ err), c1)
             else (Some err, c1)
         | Inr resp \<Rightarrow>
             let c2 = c1\<lparr>config := (config c1)\<lparr>Node := node\<lparr>Status := NodeStatusReady\<rparr>\<rparr>\<rparr>;
                 c3 = emit (Printf ''[DEBUG] client: node registration complete'' []
                            # (if length (EvalIDs resp) \<noteq> 0
                               then [Printf ''[DEBUG] client: %d evaluations triggered by node registration''
                                       [N (int (length (EvalIDs resp)))]]
                               else [])) c2
             in (None, c3\<lparr>lastHeartbeat := now, heartbeatTTL := HeartbeatTTL resp\<rparr>))"

text \<open>One attempt of \<^verbatim>\<open>retryRegisterNode\<close> as the environment decides it: the result of
  the RPC, the time, the random number of the backoff, and whether the shutdown channel
  wins the \<^verbatim>\<open>select\<close> that follows a failure.\<close>

record reg_attempt =
  reg_result :: "error + NodeUpdateResponse"
  reg_now :: int
  reg_rnd :: nat
  reg_shutdown :: bool

text \<open>\<^verbatim>\<open>retryRegisterNode\<close> on the attempts offered so far. It returns the client and the
  attempts left; \<open>None\<close> says that every attempt offered has failed and the loop is
  still retrying.\<close>

fun retryRegisterNode :: "Client \<Rightarrow> reg_attempt list \<Rightarrow> (Client \<times> reg_attempt list) option" where
  "retryRegisterNode c [] = None"
| "retryRegisterNode c (a # as) =
     (case registerNode c (reg_result a) (reg_now a) of
        (None, c') \<Rightarrow> Some (c', as)
      | (Some err, c') \<Rightarrow>
          let c'' = emit [Printf ''[ERR] client: %v'' [S err],
                          After (retryIntv c' registerRetryIntv (reg_rnd a))] c'
          in if reg_shutdown a then Some (c'', as) else retryRegisterNode c'' as)"

text \<open>\<^verbatim>\<open>updateNodeStatus\<close>, given the result of the RPC, the time and the result of
  \<^verbatim>\<open>rpcProxy.RefreshServerLists\<close>. The two compare-and-swap calls leave the flag
  \<^verbatim>\<open>lastHeartbeatFromQuorum\<close> at 0 and at 1.\<close>

definition updateNodeStatus :: "Client \<Rightarrow> error + NodeUpdateResponse \<Rightarrow> int \<Rightarrow> error option
    \<Rightarrow> error option \<times> Client" where
  "updateNodeStatus c result now refresh =
     (let node = Node (config c);
          c1 = emit [RPC (NodeUpdateStatus (ID' node) NodeStatusReady (Region (config c)))] c
      in case result of
           Inl err \<Rightarrow> (Some (''failed to update status: '' @ err), c1)
         | Inr resp \<Rightarrow>
             let c2 = emit ((if length (EvalIDs resp) \<noteq> 0
                             then [Printf ''[DEBUG] client: %d evaluations triggered by node update''
                                     [N (int (length (EvalIDs resp)))]]
                             else [])
                            @ (if Index' resp \<noteq> 0
                               then [Printf ''[DEBUG] client: state updated to %s'' [S NodeStatusReady]]
                               else [])) c1;
                 c3 = c2\<lparr>lastHeartbeat := now, heartbeatTTL := HeartbeatTTL resp\<rparr>
             in (case refresh of
                   Some err \<Rightarrow> (Some err, c3)
                 | None \<Rightarrow>
                     if LeaderRPCAddr resp = []
                     then (None, c3\<lparr>lastHeartbeatFromQuorum := False\<rparr>)
                     else (None, c3\<lparr>lastHeartbeatFromQuorum := True\<rparr>)))"

text \<open>What the environment decides when the heartbeat timer fires.\<close>

record heartbeat_env =
  hb_result :: "error + NodeUpdateResponse"
  hb_now :: int
  hb_refresh :: "error option"
  hb_rnd :: nat
  hb_register :: "reg_attempt list"

text \<open>The case \<^verbatim>\<open><-heartbeat\<close> of the loop of \<^verbatim>\<open>registerAndHeartbeat\<close>. It returns the
  client and the delay of the timer it arms for the next heartbeat; \<open>None\<close> says that
  the re-registration has not returned on the attempts offered.\<close>

definition heartbeat_fire :: "Client \<Rightarrow> heartbeat_env \<Rightarrow> (Client \<times> Duration) option" where
  "heartbeat_fire c env =
     (case updateNodeStatus c (hb_result env) (hb_now env) (hb_refresh env) of
        (Some err, c1) \<Rightarrow>
          if Contains err ''node not found''
          then
            (case retryRegisterNode (emit [Printf ''[INFO] client: re-registering node'' []] c1)
                    (hb_register env) of
               None \<Rightarrow> None
             | Some (c2, rest) \<Rightarrow>
                 let d = RandomStagger initialHeartbeatStagger (hb_rnd env)
                 in Some (emit [After d] c2, d))
          else
            let intv = retryIntv c1 registerRetryIntv (hb_rnd env)
            in Some (emit [Printf ''[ERR] client: heartbeating failed. Retrying in %v: %v''
                             [N intv, S err],
                           After intv] c1, intv)
      | (None, c1) \<Rightarrow> Some (emit [After (heartbeatTTL c1)] c1, heartbeatTTL c1))"

text \<open>An attempt that makes \<^verbatim>\<open>retryRegisterNode\<close> go round again: the RPC fails and the
  backoff timer, not the shutdown channel, ends the wait.\<close>

definition fails :: "reg_attempt \<Rightarrow> bool" where
  "fails a = (case reg_result a of Inl err \<Rightarrow> \<not> reg_shutdown a | Inr resp \<Rightarrow> False)"

subsection \<open>The state directory and \<^verbatim>\<open>nodeID\<close>\<close>

text \<open>The files the client reads and writes. \<open>files\<close> maps a path to the bytes of
  the regular file there (no entry: the file does not exist), \<open>read_err\<close> gives the
  paths whose read fails with an error other than not-exist, \<open>write_err\<close> the paths
  where a write fails.\<close>

record FS =
  files :: "string \<rightharpoonup> string"
  read_err :: "string \<rightharpoonup> error"
  write_err :: "string \<rightharpoonup> error"

datatype read_result = ReadOk string | ReadNotExist | ReadErr error

definition ReadFile :: "FS \<Rightarrow> string \<Rightarrow> read_result" where
  "ReadFile fs p =
     (case read_err fs p of
        Some e \<Rightarrow> ReadErr e
      | None \<Rightarrow> (case files fs p of None \<Rightarrow> ReadNotExist | Some b \<Rightarrow> ReadOk b))"

text \<open>\<^verbatim>\<open>ioutil.WriteFile(path, data, perm)\<close>: the call and its permission argument go to
  the trace, the bytes to the file.\<close>

definition WriteFile_fs :: "FS \<Rightarrow> string \<Rightarrow> string \<Rightarrow> error + FS" where
  "WriteFile_fs fs p b =
     (case write_err fs p of
        Some e \<Rightarrow> Inl e
      | None \<Rightarrow> Inr (fs\<lparr>files := (files fs)(p \<mapsto> b)\<rparr>))"

text \<open>\<^verbatim>\<open>filepath.Join\<close> and \<^verbatim>\<open>filepath.Clean\<close> of Go's standard library, for paths
  with the separator \<^verbatim>\<open>/\<close>. \<^verbatim>\<open>Clean\<close> drops empty and \<^verbatim>\<open>.\<close> elements, lets a
  \<^verbatim>\<open>..\<close> element remove the element before it (at the root it is dropped, at the start
  of a relative path it is kept), and returns \<^verbatim>\<open>.\<close> for an empty result. \<^verbatim>\<open>Join\<close>
  ignores empty arguments, joins the others with the separator and cleans the result;
  with no non-empty argument it returns the empty string.\<close>

fun split_path :: "string \<Rightarrow> string list" where
  "split_path [] = [[]]"
| "split_path (ch # cs) =
     (if ch = CHR ''/'' then [] # split_path cs
      else (case split_path cs of
              [] \<Rightarrow> [[ch]]
            | x # xs \<Rightarrow> (ch # x) # xs))"

fun join_sep :: "string list \<Rightarrow> string" where
  "join_sep [] = []"
| "join_sep [x] = x"
| "join_sep (x # y # xs) = x @ ''/'' @ join_sep (y # xs)"

text \<open>One element of the path met by \<^verbatim>\<open>Clean\<close>; \<open>out\<close> holds the elements kept so far,
  the last one first.\<close>

definition clean_step :: "bool \<Rightarrow> string \<Rightarrow> string list \<Rightarrow> string list" where
  "clean_step rooted elem out =
     (if elem = [] \<or> elem = ''.'' then out
      else if elem = ''..'' then
        (case out of
           [] \<Rightarrow> if rooted then out else [elem]
         | prev # rest \<Rightarrow> if prev = ''..'' then elem # out else rest)
      else elem # out)"

definition Clean :: "string \<Rightarrow> string" where
  "Clean path =
     (if path = [] then ''.''
      else
        let rooted = (hd path = CHR ''/'');
            out = fold (clean_step rooted) (split_path path) [];
            body = join_sep (rev out)
        in if rooted then ''/'' @ body else if body = [] then ''.'' else body)"

definition Join :: "string \<Rightarrow> string \<Rightarrow> string" where
  "Join dir name =
     (let elems = filter (\<lambda>e. e \<noteq> []) [dir, name]
      in if elems = [] then [] else Clean (join_sep elems))"

text \<open>The permission bits \<^verbatim>\<open>0700\<close> (octal).\<close>

definition perm_0700 :: nat where "perm_0700 = 7 * 64"

text \<open>\<^verbatim>\<open>nodeID\<close>. The argument \<open>uuid\<close> is what \<^verbatim>\<open>structs.GenerateUUID()\<close> returns
  when it is called. The results are the pair \<^verbatim>\<open>(id, err)\<close> as a sum, the client
  (whose trace gains the write) and the file system.\<close>

definition nodeID :: "Client \<Rightarrow> FS \<Rightarrow> string \<Rightarrow> (error + string) \<times> Client \<times> FS" where
  "nodeID c fs uuid =
     (if DevMode (config c) then (Inr uuid, c, fs)
      else
        let idPath = Join (StateDir (config c)) ''client-id'' in
        (case ReadFile fs idPath of
           ReadErr e \<Rightarrow> (Inl e, c, fs)
         | r \<Rightarrow>
             let idBuf = (case r of ReadOk b \<Rightarrow> b | _ \<Rightarrow> []) in
             if length idBuf \<noteq> 0 then (Inr idBuf, c, fs)
             else
               (case WriteFile_fs fs idPath uuid of
                  Inl e \<Rightarrow> (Inl e, c, fs)
                | Inr fs' \<Rightarrow> (Inr uuid, emit [WriteFile idPath uuid perm_0700] c, fs'))))"

subsection \<open>\<^verbatim>\<open>reservePorts\<close>\<close>

text \<open>The local map \<^verbatim>\<open>reservedIndex\<close> (IP to network) is an association list with one
  pair per key, in the order the keys were first stored: the code ends by ranging over
  the map, in an order Go leaves open, and the list fixes one such order. A value of the
  map is a pointer, so the ports appended through \<^verbatim>\<open>res\<close> are the ports of the map's
  entry. \<^verbatim>\<open>net.Copy()\<close> is the network's value.\<close>

definition index_reserved :: "NetworkResource list \<Rightarrow> (string \<times> NetworkResource) list" where
  "index_reserved reserved = fold (\<lambda>resNet idx. AList.update (IP resNet) resNet idx) reserved []"

definition global_ports :: "int list \<Rightarrow> Port list" where
  "global_ports global = map (\<lambda>portVal. \<lparr>Label = [], Value = portVal\<rparr>) global"

definition reserve_on :: "int list \<Rightarrow> NetworkResource \<Rightarrow> (string \<times> NetworkResource) list
    \<Rightarrow> (string \<times> NetworkResource) list" where
  "reserve_on global net idx =
     (let res = (case map_of idx (IP net) of
                   Some r \<Rightarrow> r
                 | None \<Rightarrow> net\<lparr>MBits := 0\<rparr>)
      in AList.update (IP net)
           (res\<lparr>ReservedPorts := ReservedPorts res @ global_ports global\<rparr>) idx)"

definition reservePorts :: "Client \<Rightarrow> Client" where
  "reservePorts c =
     (let global = GloballyReservedPorts (config c) in
      if length global = 0 then c
      else
        let node = Node (config c);
            networks = Networks (NodeResources node);
            reservedIndex = fold (reserve_on global) networks
                              (index_reserved (Networks (Reserved node)))
        in c\<lparr>config := (config c)
              \<lparr>Node := node\<lparr>Reserved := (Reserved node)\<lparr>Networks := map snd reservedIndex\<rparr>\<rparr>\<rparr>\<rparr>)"

text \<open>What a network of the result started from: the entry of the old
  \<^verbatim>\<open>Reserved.Networks\<close> stored last under the IP, or else the first fingerprinted network
  with the IP, its \<open>MBits\<close> cleared.\<close>

definition prior_entry :: "Node \<Rightarrow> string \<Rightarrow> NetworkResource option" where
  "prior_entry node ip =
     (case find (\<lambda>r. IP r = ip) (rev (Networks (Reserved node))) of
        Some r \<Rightarrow> Some r
      | None \<Rightarrow> map_option (\<lambda>n. n\<lparr>MBits := 0\<rparr>)
                 (find (\<lambda>n. IP n = ip) (Networks (NodeResources node))))"

definition count_ip :: "NetworkResource list \<Rightarrow> string \<Rightarrow> nat" where
  "count_ip nets ip = length (filter (\<lambda>n. IP n = ip) nets)"

subsection \<open>Zero values\<close>

definition zero_Resources :: Resources where
  "zero_Resources = \<lparr>CPU = 0, MemoryMB = 0, Networks = []\<rparr>"

definition zero_Node :: Node where
  "zero_Node =
     \<lparr>ID' = [], Name = [], Datacenter = [], Status = [], Attributes = Map.empty,
      Meta = Map.empty, Links = Map.empty, NodeResources = zero_Resources,
      Reserved = zero_Resources\<rparr>"

definition zero_Config :: Config where
  "zero_Config =
     \<lparr>DevMode = False, StateDir = [], AllocDir = [], Region = [], Servers = [],
      GloballyReservedPorts = [], whitelist = [], Node = zero_Node\<rparr>"

text \<open>The client as \<^verbatim>\<open>NewClient\<close> first builds it from a configuration.\<close>

definition new_Client :: "Config \<Rightarrow> int \<Rightarrow> Client" where
  "new_Client cfg now =
     \<lparr>config = cfg, start = now, configCopy = zero_Config, lastHeartbeatFromQuorum = False,
      lastHeartbeat = 0, heartbeatTTL = 0, allocs = Map.empty,
      blockedAllocations = Map.empty, allocUpdates = [], trace = []\<rparr>"

subsection \<open>Start-up: \<^verbatim>\<open>init\<close>, \<^verbatim>\<open>setupNode\<close>, \<^verbatim>\<open>fingerprint\<close>, \<^verbatim>\<open>restoreState\<close>, \<^verbatim>\<open>NewClient\<close>\<close>

text \<open>A fingerprinter: the method \<^verbatim>\<open>Fingerprint(config, node)\<close>, which returns an error or
  whether it applies together with the node as it leaves it, and the method
  \<^verbatim>\<open>Periodic()\<close>.\<close>

record Fingerprinter =
  Fingerprint :: "Config \<Rightarrow> Node \<Rightarrow> error + bool \<times> Node"
  Periodic :: "bool \<times> Duration"

text \<open>The one fingerprinter among the sources, \<^verbatim>\<open>ArchFingerprint\<close>; \<open>GOARCH\<close> is
  \<^verbatim>\<open>runtime.GOARCH\<close>. Its \<^verbatim>\<open>Periodic\<close> is that of the embedded
  \<^verbatim>\<open>StaticFingerprinter\<close>, which is never periodic.\<close>

definition ArchFingerprint :: "string \<Rightarrow> Fingerprinter" where
  "ArchFingerprint GOARCH =
     \<lparr>Fingerprint = (\<lambda>cfg node. Inr (True, node\<lparr>Attributes := (Attributes node)(''arch'' \<mapsto> GOARCH)\<rparr>)),
      Periodic = (False, 0)\<rparr>"

datatype readdir_result = DirOk "string list" | DirNotExist | DirErr error

text \<open>What the environment decides while \<^verbatim>\<open>NewClient\<close> runs: the clock, the outcome of
  creating directories, the host name, the UUID generated, the built-in fingerprinters
  (\<^verbatim>\<open>fingerprint.BuiltinFingerprints()\<close> and \<^verbatim>\<open>fingerprint.NewFingerprint\<close>), the listing
  of a directory, and for each allocation ID the error of the runner's
  \<^verbatim>\<open>RestoreState\<close>, if it fails.\<close>

record World =
  Now :: int
  MkdirAll_err :: "string \<rightharpoonup> error"
  TempDir_state :: "error + string"
  TempDir_alloc :: "error + string"
  Hostname :: string
  GenerateUUID :: string
  BuiltinFingerprints :: "string list"
  NewFingerprint :: "string \<Rightarrow> error + Fingerprinter"
  ReadDir :: "string \<Rightarrow> readdir_result"
  RestoreState :: "string \<rightharpoonup> error"

definition perm_0755 :: nat where "perm_0755 = 7 * 64 + 5 * 8 + 5"

definition init :: "World \<Rightarrow> Client \<Rightarrow> error option \<times> Client" where
  "init w c =
     (case (if StateDir (config c) \<noteq> []
            then (case MkdirAll_err w (StateDir (config c)) of
                    Some err \<Rightarrow> Inl (''failed creating state dir: '' @ err)
                  | None \<Rightarrow> Inr (emit [MkdirAll (StateDir (config c)) perm_0700] c))
            else (case TempDir_state w of
                    Inl err \<Rightarrow> Inl (''failed creating temporary directory for the StateDir: '' @ err)
                  | Inr p \<Rightarrow> Inr (c\<lparr>config := (config c)\<lparr>StateDir := p\<rparr>\<rparr>))) of
        Inl e \<Rightarrow> (Some e, c)
      | Inr c1 \<Rightarrow>
          let c2 = emit [Printf ''[INFO] client: using state directory %v'' [S (StateDir (config c1))]] c1
          in (case (if AllocDir (config c2) \<noteq> []
                    then (case MkdirAll_err w (AllocDir (config c2)) of
                            Some err \<Rightarrow> Inl (''failed creating alloc dir: '' @ err)
                          | None \<Rightarrow> Inr (emit [MkdirAll (AllocDir (config c2)) perm_0755] c2))
                    else (case TempDir_alloc w of
                            Inl err \<Rightarrow> Inl (''failed creating temporary directory for the AllocDir: '' @ err)
                          | Inr p \<Rightarrow> Inr (c2\<lparr>config := (config c2)\<lparr>AllocDir := p\<rparr>\<rparr>))) of
                Inl e \<Rightarrow> (Some e, c2)
              | Inr c3 \<Rightarrow>
                  (None, emit [Printf ''[INFO] client: using alloc directory %v''
                                 [S (AllocDir (config c3))]] c3)))"

definition setupNode :: "World \<Rightarrow> FS \<Rightarrow> Client \<Rightarrow> error option \<times> Client \<times> FS" where
  "setupNode w fs c =
     (case nodeID c fs (GenerateUUID w) of
        (Inl err, c1, fs1) \<Rightarrow> (Some (''node ID setup failed: '' @ err), c1, fs1)
      | (Inr id', c1, fs1) \<Rightarrow>
          let node = (Node (config c1))\<lparr>ID' := id'\<rparr>;
              node = (if Datacenter node = [] then node\<lparr>Datacenter := ''dc1''\<rparr> else node);
              node = (if Name node = [] then node\<lparr>Name := Hostname w\<rparr> else node);
              node = (if Name node = [] then node\<lparr>Name := ID' node\<rparr> else node);
              node = node\<lparr>Status := NodeStatusInit\<rparr>
          in (None, c1\<lparr>config := (config c1)\<lparr>Node := node\<rparr>\<rparr>, fs1))"

text \<open>The loop of \<^verbatim>\<open>fingerprint\<close> over the names still to do, with the whitelist read
  before the loop and the lists \<^verbatim>\<open>applied\<close> and \<^verbatim>\<open>skipped\<close>. Each \<^verbatim>\<open>return err\<close> of the
  source is a result with \<open>Some err\<close>.\<close>

fun fingerprint_loop :: "World \<Rightarrow> string list \<Rightarrow> Client \<Rightarrow> string list \<Rightarrow> string list \<Rightarrow> string list
    \<Rightarrow> error option \<times> Client \<times> string list \<times> string list" where
  "fingerprint_loop w wl c [] applied skipped = (None, c, applied, skipped)"
| "fingerprint_loop w wl c (name # names) applied skipped =
     (if length wl > 0 \<and> name \<notin> set wl
      then fingerprint_loop w wl c names applied (skipped @ [name])
      else
        (case NewFingerprint w name of
           Inl err \<Rightarrow> (Some err, c, applied, skipped)
         | Inr f \<Rightarrow>
             (case Fingerprint f (config c) (Node (config c)) of
                Inl err \<Rightarrow> (Some err, c, applied, skipped)
              | Inr (applies, node) \<Rightarrow>
                  let c1 = c\<lparr>config := (config c)\<lparr>Node := node\<rparr>\<rparr>;
                      applied1 = (if applies then applied @ [name] else applied);
                      c2 = (case Periodic f of
                              (p, period) \<Rightarrow>
                                if p then emit [Go (fingerprintPeriodic name period)] c1 else c1)
                  in fingerprint_loop w wl c2 names applied1 skipped)))"

definition fingerprint :: "World \<Rightarrow> Client \<Rightarrow> error option \<times> Client" where
  "fingerprint w c =
     (let wl = whitelist (config c);
          c0 = emit [Printf ''[DEBUG] client: built-in fingerprints: %v''
                       [SL (BuiltinFingerprints w)]] c
      in case fingerprint_loop w wl c0 (BuiltinFingerprints w) [] [] of
           (Some err, c1, applied, skipped) \<Rightarrow> (Some err, c1)
         | (None, c1, applied, skipped) \<Rightarrow>
             (None,
              emit (Printf ''[DEBUG] client: applied fingerprints %v'' [SL applied]
                    # (if length skipped \<noteq> 0
                       then [Printf ''[DEBUG] client: fingerprint modules skipped due to whitelist: %v''
                               [SL skipped]]
                       else [])) c1))"

text \<open>Modelled from the spec: \<^verbatim>\<open>multierror.Error\<close> belongs to an imported library. The spec
  says that the errors are collected into a multi-error; the message lists them, and
  \<^verbatim>\<open>ErrorOrNil\<close> is \<^verbatim>\<open>nil\<close> exactly when none was collected.\<close>

definition multierror_Error :: "error list \<Rightarrow> string" where
  "multierror_Error errs = ''errors occurred:'' @ concat (map (\<lambda>e. ''; * '' @ e) errs)"

definition ErrorOrNil :: "error list \<Rightarrow> error option" where
  "ErrorOrNil errs = (if errs = [] then None else Some (multierror_Error errs))"

text \<open>One round of the loop ``Load each alloc back'' of \<^verbatim>\<open>restoreState\<close>, on the client
  and the errors collected in \<^verbatim>\<open>mErr.Errors\<close>.\<close>

definition restore_entry :: "World \<Rightarrow> string \<Rightarrow> Client \<times> error list \<Rightarrow> Client \<times> error list" where
  "restore_entry w id' s =
     (case s of
        (c, errs) \<Rightarrow>
          let alloc = zero_Allocation\<lparr>ID := id'\<rparr>;
              ar = NewAllocRunner (configCopy c) alloc;
              c1 = c\<lparr>allocs := (allocs c)(id' \<mapsto> ar)\<rparr>
          in (case RestoreState w id' of
                Some err \<Rightarrow>
                  (emit [Printf ''[ERR] client: failed to restore state for alloc %s: %v''
                           [S id', S err]] c1,
                   errs @ [err])
              | None \<Rightarrow> (emit [Go (Run id')] c1, errs)))"

definition restoreState :: "World \<Rightarrow> Client \<Rightarrow> error option \<times> Client" where
  "restoreState w c =
     (if DevMode (config c) then (None, c)
      else
        (case ReadDir w (Join (StateDir (config c)) ''alloc'') of
           DirNotExist \<Rightarrow> (None, c)
         | DirErr err \<Rightarrow> (Some (''failed to list alloc state: '' @ err), c)
         | DirOk list \<Rightarrow>
             (case fold (restore_entry w) list (c, []) of
                (c', errs) \<Rightarrow> (ErrorOrNil errs, c'))))"

text \<open>\<^verbatim>\<open>NewClient\<close>: the client or the error it returns, and the files it leaves.\<close>

definition NewClient :: "World \<Rightarrow> FS \<Rightarrow> Config \<Rightarrow> (error + Client) \<times> FS" where
  "NewClient w fs cfg =
     (let c = new_Client cfg (Now w)
      in case init w c of
           (Some err, c1) \<Rightarrow> (Inl (''failed to initialize client: '' @ err), fs)
         | (None, c1) \<Rightarrow>
             (case setupNode w fs c1 of
                (Some err, c2, fs2) \<Rightarrow> (Inl (''node setup failed: '' @ err), fs2)
              | (None, c2, fs2) \<Rightarrow>
                  (case fingerprint w c2 of
                     (Some err, c3) \<Rightarrow> (Inl (''fingerprinting failed: '' @ err), fs2)
                   | (None, c3) \<Rightarrow>
                       let c4 = reservePorts c3;
                           c5 = c4\<lparr>configCopy := config c4\<rparr>;
                           c6 = emit (map AddPrimaryServer (Servers (configCopy c5))) c5
                       in (case restoreState w c6 of
                             (Some err, c7) \<Rightarrow> (Inl (''failed to restore state: '' @ err), fs2)
                           | (None, c7) \<Rightarrow>
                               (Inr (emit [Go (Loop ''registerAndHeartbeat''),
                                           Go (Loop ''periodicSnapshot''),
                                           Go (Loop ''allocSync''),
                                           Go (Loop ''run''),
                                           Go (Loop ''collectHostStats''),
                                           Go (Loop ''rpcProxy.Run''),
                                           Go (Loop ''gnats.Start'')] c7),
                                fs2)))))"

subsection \<open>The spec's scenarios\<close>

text \<open>Scenario S1 of the spec (cold start, dev mode) and S2 (warm start with a state
  directory).\<close>

definition S1_config :: Config where
  "S1_config = zero_Config\<lparr>DevMode := True, Region := ''global'', Servers := [''127.0.0.1:4647'']\<rparr>"

definition S2_config :: Config where
  "S2_config = zero_Config\<lparr>StateDir := ''/var/lib/udup'', AllocDir := ''/var/lib/udup/alloc'',
     Region := ''global''\<rparr>"

definition empty_FS :: FS where
  "empty_FS = \<lparr>files = Map.empty, read_err = Map.empty, write_err = Map.empty\<rparr>"

definition S2_FS :: FS where
  "S2_FS = empty_FS\<lparr>files := [''/var/lib/udup/client-id'' \<mapsto> ''7c9e6679-7425-40de-944b-e07fc1f90ae7'']\<rparr>"


text \<open>A node with one fingerprinted network, \<^verbatim>\<open>10.0.0.1\<close>, whose operator has already
  reserved port 22 on it and port 80 on a second address that no fingerprinted network has.\<close>

definition eth0 :: NetworkResource where
  "eth0 = \<lparr>Device = ''eth0'', IP = ''10.0.0.1'', MBits = 1000, ReservedPorts = []\<rparr>"

definition reserved_node :: Node where
  "reserved_node =
     zero_Node
       \<lparr>NodeResources := zero_Resources\<lparr>Networks := [eth0]\<rparr>,
        Reserved := zero_Resources
          \<lparr>Networks :=
             [eth0\<lparr>MBits := 0, ReservedPorts := [\<lparr>Label = [], Value = 22\<rparr>]\<rparr>,
              \<lparr>Device = ''eth1'', IP = ''10.0.0.2'', MBits = 0,
               ReservedPorts = [\<lparr>Label = [], Value = 80\<rparr>]\<rparr>]\<rparr>\<rparr>"

definition reserved_client :: Client where
  "reserved_client =
     new_Client (S2_config\<lparr>GloballyReservedPorts := [22], Node := reserved_node\<rparr>) 0"

text \<open>A \<^verbatim>\<open>Terminated\<close> for the scenarios: of the client statuses the spec lists,
  \<open>complete\<close>, \<open>failed\<close> and \<open>lost\<close> end an allocation.\<close>

definition ClientTerminated :: "Allocation \<Rightarrow> bool" where
  "ClientTerminated a = (ClientStatus a \<in> set [''complete'', ''failed'', ''lost''])"

text \<open>Scenarios S3 and S4: \<open>alloc-B\<close> follows \<open>alloc-A\<close>; both arrive as added, then the
  runner of \<open>alloc-A\<close> reports the status \<open>complete\<close>.\<close>

definition alloc_A :: Allocation where
  "alloc_A = zero_Allocation\<lparr>ID := ''alloc-A'', ClientStatus := ''running''\<rparr>"

definition alloc_B :: Allocation where
  "alloc_B = zero_Allocation\<lparr>ID := ''alloc-B'', PreviousAllocation := ''alloc-A''\<rparr>"

definition S3_client :: Client where
  "S3_client = runAllocs_added ClientTerminated (new_Client S2_config 0) [alloc_A, alloc_B]"

definition S4_client :: Client where
  "S4_client = updateAllocStatus S3_client (alloc_A\<lparr>ClientStatus := ''complete''\<rparr>) SendReady"

text \<open>A second successor of \<open>alloc-A\<close> arrives while \<open>alloc-B\<close> waits; then the runner of
  \<open>alloc-A\<close> reports \<open>complete\<close> twice.\<close>

definition alloc_C :: Allocation where
  "alloc_C = zero_Allocation\<lparr>ID := ''alloc-C'', PreviousAllocation := ''alloc-A''\<rparr>"

definition overwritten_client :: Client where
  "overwritten_client =
     updateAllocStatus
       (updateAllocStatus (runAllocs_add ClientTerminated S3_client alloc_C)
          (alloc_A\<lparr>ClientStatus := ''complete''\<rparr>) SendReady)
       (alloc_A\<lparr>ClientStatus := ''complete''\<rparr>) SendReady"

text \<open>Scenario S6: three status updates for \<open>alloc-X\<close> wait in the channel.\<close>

definition alloc_X :: "string \<Rightarrow> Allocation" where
  "alloc_X status = zero_Allocation\<lparr>ID := ''alloc-X'', ClientStatus := status\<rparr>"

definition S6_client :: "Config \<Rightarrow> Client" where
  "S6_client cfg =
     (new_Client cfg 0)\<lparr>allocUpdates := [alloc_X ''running'', alloc_X ''running'', alloc_X ''complete'']\<rparr>"

text \<open>A window of the sync loop with messages for two allocations.\<close>

definition window_client :: Client where
  "window_client =
     (new_Client S2_config 0)
       \<lparr>allocUpdates := [alloc_X ''running'', alloc_A, alloc_X ''running'', alloc_X ''complete'']\<rparr>"

text \<open>Scenario S5: the heartbeat fails with \<open>rpc: node not found\<close>, and the
  registration that follows is answered with a TTL of 10 s.\<close>

definition register_ok :: reg_attempt where
  "register_ok =
     \<lparr>reg_result = Inr \<lparr>HeartbeatTTL = 10 * Second, EvalIDs = [], Servers' = [], NumNodes = 1,
                          LeaderRPCAddr = ''127.0.0.1:4647'', Index' = 0\<rparr>,
      reg_now = 20 * Second, reg_rnd = 0, reg_shutdown = False\<rparr>"

definition S5_env :: "error \<Rightarrow> heartbeat_env" where
  "S5_env err =
     \<lparr>hb_result = Inl err, hb_now = 20 * Second, hb_refresh = None, hb_rnd = 31000000007,
      hb_register = [register_ok]\<rparr>"

text \<open>Scenario S3 at the watcher: the reply names \<open>alloc-A\<close> at index 7 and \<open>alloc-B\<close> at
  index 3, nothing runs locally. In the first round both allocations are fetched; in the
  second the fetch fails.\<close>

definition S3_reply :: NodeClientAllocsResponse where
  "S3_reply = \<lparr>Allocs = [(''alloc-A'', 7), (''alloc-B'', 3)], Index = 7\<rparr>"

definition S3_round :: "error + Allocation list \<Rightarrow> watch_env" where
  "S3_round fetched =
     \<lparr>allocs_now = Map.empty, getClientAllocs = Inr S3_reply, getAllocs = fetched,
      rnd_retry = 0, shutdownCh = (\<lambda>p. False)\<rparr>"

text \<open>A \<^verbatim>\<open>shouldUpdate\<close> for the scenarios: the runner's allocation is older than the
  server's index.\<close>

definition older :: "AllocRunner \<Rightarrow> 64 word \<Rightarrow> bool" where
  "older runner serverIndex = (AllocModifyIndex (Alloc runner) < serverIndex)"

text \<open>A start-up environment for scenario S2: the state directory lists the given
  allocation directories, and \<open>restore\<close> gives the allocations whose state cannot be
  read. Besides \<open>arch\<close> it knows a fingerprinter \<open>cpu\<close> that fails.\<close>

definition failing_cpu :: Fingerprinter where
  "failing_cpu = \<lparr>Fingerprint = (\<lambda>cfg node. Inl ''cannot read cpuinfo''), Periodic = (False, 0)\<rparr>"

definition boot_world :: "string list \<Rightarrow> string list \<Rightarrow> (string \<rightharpoonup> error) \<Rightarrow> World" where
  "boot_world builtin entries restore =
     \<lparr>Now = 0, MkdirAll_err = Map.empty, TempDir_state = Inr ''/tmp/UdupClient1'',
      TempDir_alloc = Inr ''/tmp/UdupClient2'', Hostname = ''node1'', GenerateUUID = ''0b1c'',
      BuiltinFingerprints = builtin,
      NewFingerprint = (\<lambda>name. if name = ''arch'' then Inr (ArchFingerprint ''amd64'')
                               else if name = ''cpu'' then Inr failing_cpu
                               else Inl ''unknown fingerprint''),
      ReadDir = (\<lambda>p. if p = ''/var/lib/udup/alloc'' then DirOk entries else DirNotExist),
      RestoreState = restore\<rparr>"

section \<open>Theorems\<close>

text \<open>
  C10. For every allocation passed to \<^verbatim>\<open>updateAllocStatus\<close>, the message put on the
  status-update channel has exactly the fields \<open>ID\<close>, \<open>TaskStates\<close>, \<open>ClientStatus\<close> and
  \<open>ClientDescription\<close> of the input, the \<open>NodeID\<close> of the client's own node (whatever the
  input's \<open>NodeID\<close> is), and the zero value in every other field; the channel's earlier
  content and the rest of the client are untouched. The message is a new value built from
  the zero allocation, which is what a fresh \<^verbatim>\<open>new(structs.Allocation)\<close> holds.
\<close>

theorem updateAllocStatus_message:
  "updateAllocStatus c a SendReady =
     c\<lparr>allocUpdates := allocUpdates c @
        [\<lparr>ID = ID a, NodeID = ID' (Node (config c)), PreviousAllocation = [],
          AllocModifyIndex = 0, Payload = [], TaskStates = TaskStates a,
          ClientStatus = ClientStatus a, ClientDescription = ClientDescription a\<rparr>]\<rparr>"
  by (simp add: updateAllocStatus_def stripped_def zero_Allocation_def)

text \<open>\<^verbatim>\<open>Join\<close> cleans the path: a state directory given with a trailing separator leads
  to the same file.\<close>

lemma Join_trailing_separator:
  "Join ''/var/lib/udup/'' ''client-id'' = ''/var/lib/udup/client-id''
   \<and> Join ''/var/lib/udup'' ''client-id'' = ''/var/lib/udup/client-id''
   \<and> Join ''state/./x/..'' ''client-id'' = ''state/client-id''
   \<and> Join ''/'' ''client-id'' = ''/client-id''
   \<and> Join [] ''client-id'' = ''client-id''
   \<and> Clean ''/..'' = ''/'' \<and> Clean ''a/../..'' = ''..'' \<and> Clean ''../../a'' = ''../../a''
   \<and> Clean ''a//b/'' = ''a/b'' \<and> Clean ''a/..'' = ''.''"
  by (simp add: Join_def Clean_def clean_step_def)




subsection \<open>Reserved ports\<close>

lemma find_snoc:
  "find P (xs @ [x]) = (case find P xs of Some r \<Rightarrow> Some r | None \<Rightarrow> if P x then Some x else None)"
  by (induction xs) auto

lemma keys_update:
  "\<forall>x \<in> set idx. IP (snd x) = fst x \<Longrightarrow> IP v = k
   \<Longrightarrow> \<forall>x \<in> set (AList.update k v idx). IP (snd x) = fst x"
  by (induction idx) auto

lemma keys_fold_index:
  "\<forall>x \<in> set idx. IP (snd x) = fst x
   \<Longrightarrow> \<forall>x \<in> set (fold (\<lambda>resNet idx. AList.update (IP resNet) resNet idx) rs idx). IP (snd x) = fst x"
proof (induction rs arbitrary: idx)
  case Nil
  then show ?case by simp
next
  case (Cons a rs)
  have "\<forall>x \<in> set (AList.update (IP a) a idx). IP (snd x) = fst x"
    using Cons.prems by (rule keys_update) simp
  from Cons.IH [OF this] show ?case by simp
qed

lemma distinct_fold_index:
  "distinct (map fst idx)
   \<Longrightarrow> distinct (map fst (fold (\<lambda>resNet idx. AList.update (IP resNet) resNet idx) rs idx))"
  by (induction rs arbitrary: idx) (simp_all add: AList.distinct_update)

lemma keys_reserve_on:
  assumes "\<forall>x \<in> set idx. IP (snd x) = fst x"
  shows "\<forall>x \<in> set (reserve_on global net idx). IP (snd x) = fst x"
proof -
  have "IP (case map_of idx (IP net) of Some r \<Rightarrow> r | None \<Rightarrow> net\<lparr>MBits := 0\<rparr>) = IP net"
  proof (cases "map_of idx (IP net)")
    case None
    then show ?thesis by simp
  next
    case (Some r)
    then have "(IP net, r) \<in> set idx" by (rule map_of_SomeD)
    with assms have "IP r = IP net" by fastforce
    with Some show ?thesis by simp
  qed
  then show ?thesis
    unfolding reserve_on_def Let_def by (intro keys_update [OF assms]) simp
qed

lemma keys_fold_reserve:
  "\<forall>x \<in> set idx. IP (snd x) = fst x
   \<Longrightarrow> \<forall>x \<in> set (fold (reserve_on global) nets idx). IP (snd x) = fst x"
proof (induction nets arbitrary: idx)
  case Nil
  then show ?case by simp
next
  case (Cons n ns)
  from Cons.IH [OF keys_reserve_on [OF Cons.prems]] show ?case by simp
qed

lemma distinct_fold_reserve:
  "distinct (map fst idx) \<Longrightarrow> distinct (map fst (fold (reserve_on global) nets idx))"
  by (induction nets arbitrary: idx) (simp_all add: reserve_on_def Let_def AList.distinct_update)

lemma map_of_fold_index:
  "map_of (fold (\<lambda>resNet idx. AList.update (IP resNet) resNet idx) rs idx) ip
     = (case find (\<lambda>r. IP r = ip) (rev rs) of Some r \<Rightarrow> Some r | None \<Rightarrow> map_of idx ip)"
  by (induction rs arbitrary: idx) (auto simp: find_snoc AList.update_conv' split: option.splits)

lemma map_of_reserve_on:
  "map_of (reserve_on global net idx) ip
     = (if ip = IP net
        then Some ((case map_of idx ip of Some r \<Rightarrow> r | None \<Rightarrow> net\<lparr>MBits := 0\<rparr>)
                    \<lparr>ReservedPorts :=
                       ReservedPorts (case map_of idx ip of Some r \<Rightarrow> r | None \<Rightarrow> net)
                         @ global_ports global\<rparr>)
        else map_of idx ip)"
  by (simp add: reserve_on_def Let_def AList.update_conv' split: option.splits)

lemma filter_ip_empty:
  "ip \<notin> IP ` set ns \<Longrightarrow> filter (\<lambda>n. IP n = ip) ns = []"
  by (induction ns) auto

lemma map_of_fold_reserve:
  "map_of (fold (reserve_on global) nets idx) ip
     = (if ip \<in> IP ` set nets
        then map_option
               (\<lambda>r. r\<lparr>ReservedPorts := ReservedPorts r
                         @ concat (replicate (count_ip nets ip) (global_ports global))\<rparr>)
               (case map_of idx ip of
                  Some r \<Rightarrow> Some r
                | None \<Rightarrow> map_option (\<lambda>n. n\<lparr>MBits := 0\<rparr>) (find (\<lambda>n. IP n = ip) nets))
        else map_of idx ip)"
proof (induction nets arbitrary: idx)
  case Nil
  then show ?case by simp
next
  case (Cons n ns)
  have step: "fold (reserve_on global) (n # ns) idx
                = fold (reserve_on global) ns (reserve_on global n idx)"
    by simp
  show ?case
  proof (cases "ip = IP n")
    case True
    then show ?thesis
      unfolding step Cons.IH map_of_reserve_on
      by (auto simp: count_ip_def filter_ip_empty split: option.splits)
  next
    case False
    then show ?thesis
      unfolding step Cons.IH map_of_reserve_on
      by (auto simp: count_ip_def split: option.splits)
  qed
qed


lemma find_Some_mem: "find P xs = Some x \<Longrightarrow> x \<in> set xs"
  by (induction xs) (auto split: if_splits)

lemma map_of_reservedIndex:
  "map_of (fold (reserve_on global) (Networks (NodeResources node))
             (index_reserved (Networks (Reserved node)))) ip
     = (if ip \<in> IP ` set (Networks (NodeResources node))
        then map_option
               (\<lambda>r. r\<lparr>ReservedPorts := ReservedPorts r
                         @ concat (replicate (count_ip (Networks (NodeResources node)) ip)
                                     (global_ports global))\<rparr>)
               (prior_entry node ip)
        else find (\<lambda>r. IP r = ip) (rev (Networks (Reserved node))))"
  by (simp add: map_of_fold_reserve index_reserved_def map_of_fold_index prior_entry_def
        split: option.splits)

lemma reservedIndex_entries:
  fixes node :: Node and global :: "int list"
  defines "idx \<equiv> fold (reserve_on global) (Networks (NodeResources node))
                    (index_reserved (Networks (Reserved node)))"
  shows "distinct (map IP (map snd idx))"
    and "r \<in> set (map snd idx) \<Longrightarrow> map_of idx (IP r) = Some r"
proof -
  have keys: "\<forall>x \<in> set idx. IP (snd x) = fst x"
    unfolding idx_def index_reserved_def
    by (intro keys_fold_reserve keys_fold_index) simp
  have dist: "distinct (map fst idx)"
    unfolding idx_def index_reserved_def
    by (intro distinct_fold_reserve distinct_fold_index) simp
  have eq: "map IP (map snd idx) = map fst idx"
    using keys by simp
  show "distinct (map IP (map snd idx))"
    unfolding eq by (rule dist)
  show "map_of idx (IP r) = Some r" if "r \<in> set (map snd idx)"
  proof -
    from that obtain k where "(k, r) \<in> set idx" by auto
    moreover from this keys have "k = IP r" by fastforce
    ultimately show ?thesis using dist by simp
  qed
qed

text \<open>
  C4, as the code has it. After \<^verbatim>\<open>reservePorts\<close> runs with a non-empty
  \<^verbatim>\<open>GloballyReservedPorts\<close>, \<^verbatim>\<open>Reserved.Networks\<close> has at most one entry per IP. An
  entry whose IP is the IP of a fingerprinted network is its prior entry with the global
  ports appended to the prior ports, once for every fingerprinted network with that IP:
  as a set its ports are the union of the prior ports and the global ports, and nothing
  removes duplicates. An entry on no fingerprinted network is the old entry, unchanged.
\<close>

theorem reservePorts_merged:
  fixes c :: Client
  defines "node \<equiv> Node (config c)"
  defines "new \<equiv> Networks (Reserved (Node (config (reservePorts c))))"
  assumes nonempty: "GloballyReservedPorts (config c) \<noteq> []"
  shows "distinct (map IP new) \<and>
    (\<forall>r \<in> set new.
       if IP r \<in> IP ` set (Networks (NodeResources node))
       then \<exists>b. prior_entry node (IP r) = Some b
              \<and> r = b\<lparr>ReservedPorts := ReservedPorts b
                        @ concat (replicate (count_ip (Networks (NodeResources node)) (IP r))
                                    (global_ports (GloballyReservedPorts (config c))))\<rparr>
              \<and> set (ReservedPorts r)
                  = set (ReservedPorts b) \<union> set (global_ports (GloballyReservedPorts (config c)))
       else find (\<lambda>x. IP x = IP r) (rev (Networks (Reserved node))) = Some r
              \<and> r \<in> set (Networks (Reserved node)))"
proof -
  define idx where "idx = fold (reserve_on (GloballyReservedPorts (config c)))
                            (Networks (NodeResources node))
                            (index_reserved (Networks (Reserved node)))"
  have new: "new = map snd idx"
    using nonempty by (simp add: new_def reservePorts_def Let_def idx_def node_def)
  have d: "distinct (map IP new)"
    unfolding new idx_def by (rule reservedIndex_entries(1))
  have e: "if IP r \<in> IP ` set (Networks (NodeResources node))
       then \<exists>b. prior_entry node (IP r) = Some b
              \<and> r = b\<lparr>ReservedPorts := ReservedPorts b
                        @ concat (replicate (count_ip (Networks (NodeResources node)) (IP r))
                                    (global_ports (GloballyReservedPorts (config c))))\<rparr>
              \<and> set (ReservedPorts r)
                  = set (ReservedPorts b) \<union> set (global_ports (GloballyReservedPorts (config c)))
       else find (\<lambda>x. IP x = IP r) (rev (Networks (Reserved node))) = Some r
              \<and> r \<in> set (Networks (Reserved node))" if "r \<in> set new" for r
  proof -
    from that have m: "map_of idx (IP r) = Some r"
      unfolding new idx_def by (rule reservedIndex_entries(2))
    show ?thesis
    proof (cases "IP r \<in> IP ` set (Networks (NodeResources node))")
      case True
      then have pos: "0 < count_ip (Networks (NodeResources node)) (IP r)"
        by (auto simp: count_ip_def filter_empty_conv)
      from m True obtain b where b: "prior_entry node (IP r) = Some b"
        and r: "r = b\<lparr>ReservedPorts := ReservedPorts b
                        @ concat (replicate (count_ip (Networks (NodeResources node)) (IP r))
                                    (global_ports (GloballyReservedPorts (config c))))\<rparr>"
        unfolding idx_def map_of_reservedIndex by auto
      have "set (ReservedPorts r)
              = set (ReservedPorts b) \<union> set (global_ports (GloballyReservedPorts (config c)))"
        using pos by (subst r) auto
      with True b r show ?thesis by auto
    next
      case False
      with m have f: "find (\<lambda>x. IP x = IP r) (rev (Networks (Reserved node))) = Some r"
        unfolding idx_def map_of_reservedIndex by simp
      then have "r \<in> set (Networks (Reserved node))"
        by (auto dest: find_Some_mem)
      with False f show ?thesis by simp
    qed
  qed
  from d e show ?thesis by blast
qed


theorem reservePorts_merged_witness:
  "GloballyReservedPorts (config reserved_client) \<noteq> []
   \<and> distinct (map IP (Networks (Reserved (Node (config (reservePorts reserved_client))))))
   \<and> map (\<lambda>r. (IP r, map Value (ReservedPorts r)))
        (Networks (Reserved (Node (config (reservePorts reserved_client)))))
      = [(''10.0.0.1'', [22, 22]), (''10.0.0.2'', [80])]"
  using reservePorts_merged [of reserved_client]
  by (simp add: reserved_client_def reserved_node_def eth0_def reservePorts_def new_Client_def
        S2_config_def zero_Config_def zero_Node_def zero_Resources_def index_reserved_def
        reserve_on_def global_ports_def)

text \<open>
  C4 as claimed fails: with port 22 reserved before on the fingerprinted network and again
  globally, the merged list holds it twice; and the entry for \<^verbatim>\<open>10.0.0.2\<close>, which no
  fingerprinted network has, does not receive the global port.
\<close>

theorem reservePorts_duplicate_counterexample:
  "GloballyReservedPorts (config reserved_client) = [22]
   \<and> map ReservedPorts (Networks (Reserved (Node (config (reservePorts reserved_client)))))
      = [[\<lparr>Label = [], Value = 22\<rparr>, \<lparr>Label = [], Value = 22\<rparr>], [\<lparr>Label = [], Value = 80\<rparr>]]
   \<and> \<not> list_all (\<lambda>r. distinct (ReservedPorts r))
          (Networks (Reserved (Node (config (reservePorts reserved_client)))))
   \<and> \<not> list_all (\<lambda>r. \<lparr>Label = [], Value = 22\<rparr> \<in> set (ReservedPorts r))
          (Networks (Reserved (Node (config (reservePorts reserved_client)))))"
  by (simp add: reserved_client_def reserved_node_def eth0_def reservePorts_def new_Client_def
        S2_config_def zero_Config_def zero_Node_def zero_Resources_def index_reserved_def
        reserve_on_def global_ports_def)

subsection \<open>The chain guard and the blocked index\<close>

lemma blocked_keyed_new: "blocked_keyed (new_Client cfg now)"
  by (simp add: blocked_keyed_def new_Client_def)

lemma blocked_keyed_runAllocs_add:
  "blocked_keyed c \<Longrightarrow> blocked_keyed (runAllocs_add T c a)"
  by (auto simp: blocked_keyed_def runAllocs_add_def addAlloc_def emit_def Let_def
      split: option.splits)

lemma blocked_keyed_runAllocs_added:
  "blocked_keyed c \<Longrightarrow> blocked_keyed (runAllocs_added T c as)"
  unfolding runAllocs_added_def
  by (induction as arbitrary: c) (simp_all add: blocked_keyed_runAllocs_add)

text \<open>
  C1. When the reconciler processes an added allocation \<open>B\<close> whose \<open>PreviousAllocation\<close>
  is the ID of a runner in the alloc index and that runner's allocation is not terminal,
  \<open>B\<close> is stored in the blocked index under that ID, the alloc index is unchanged and no
  runner is started (the trace gains only the debug line). In every other case (the field
  names no runner of the index, or the runner's allocation is terminal) a runner for \<open>B\<close>
  is created, stored in the alloc index under \<open>B\<close>'s ID, and its \<^verbatim>\<open>Run\<close> is started;
  the blocked index is unchanged. Nothing else of the client changes.
\<close>

theorem runAllocs_add_chain_guard:
  "runAllocs_add T c B =
     (if \<exists>ar. allocs c (PreviousAllocation B) = Some ar \<and> \<not> T (Alloc ar)
      then c\<lparr>blockedAllocations := (blockedAllocations c)(PreviousAllocation B \<mapsto> B),
             trace := trace c @ [Printf ''[DEBUG] client: added alloc %q to blocked queue'' [S (ID B)]]\<rparr>
      else c\<lparr>allocs := (allocs c)(ID B \<mapsto> NewAllocRunner (configCopy c) B),
             trace := trace c @ [Go (Run (ID B))]\<rparr>)"
  by (auto simp: runAllocs_add_def addAlloc_def getAllocRunners_def emit_def Let_def
      split: option.splits)

text \<open>Scenario S3: \<open>alloc-A\<close> gets a runner, \<open>alloc-B\<close> waits under the key \<open>alloc-A\<close>.\<close>

lemma S3_scenario:
  "map_option Alloc (allocs S3_client ''alloc-A'') = Some alloc_A
   \<and> allocs S3_client ''alloc-B'' = None
   \<and> blockedAllocations S3_client ''alloc-A'' = Some alloc_B
   \<and> trace S3_client
       = [Go (Run ''alloc-A''),
          Printf ''[DEBUG] client: added alloc %q to blocked queue'' [S ''alloc-B'']]"
  by (simp add: S3_client_def runAllocs_added_def runAllocs_add_def addAlloc_def
        getAllocRunners_def emit_def new_Client_def NewAllocRunner_def Alloc_def
        alloc_A_def alloc_B_def zero_Allocation_def ClientTerminated_def)

lemma recv_blocked_None:
  "blockedAllocations c k = None \<Longrightarrow> blockedAllocations (fst (allocSync_recv T c st)) k = None"
  by (auto simp: allocSync_recv_def addAlloc_def emit_def Let_def split: list.splits option.splits)

lemma tick_blocked: "blockedAllocations (fst (allocSync_tick c st result rnd)) = blockedAllocations c"
  by (auto simp: allocSync_tick_def emit_def Let_def split: option.splits)

lemma allocSync_blocked_None:
  "blockedAllocations c k = None \<Longrightarrow> blockedAllocations (fst (allocSync T c st evs)) k = None"
proof (induction T c st evs rule: allocSync.induct)
  case (1 T c st)
  then show ?case by simp
next
  case (2 T c st evs)
  then show ?case by (simp add: emit_def)
next
  case (3 T c st evs)
  obtain c' st' where r: "allocSync_recv T c st = (c', st')"
    by (cases "allocSync_recv T c st")
  from recv_blocked_None [OF "3.prems", of T st] r have "blockedAllocations c' k = None" by simp
  with "3.IH" [OF r [symmetric]] r show ?case by simp
next
  case (4 T c st result rnd evs)
  obtain c' st' where r: "allocSync_tick c st result rnd = (c', st')"
    by (cases "allocSync_tick c st result rnd")
  from tick_blocked [of c st result rnd] r "4.prems" have "blockedAllocations c' k = None" by simp
  with "4.IH" [OF r [symmetric]] r show ?case by simp
qed

text \<open>
  C2, as the code has it. Let the blocked index be keyed as the reconciler keys it, and
  let the sync loop receive the message \<open>m\<close>. If \<open>m\<close>'s ID is a key of the blocked index
  and \<open>m\<close> is terminal, then in this one step the allocation stored under the key gets a
  runner in the alloc index, its \<^verbatim>\<open>Run\<close> is started, and the key is removed; otherwise
  the alloc index, the blocked index and the trace are unchanged. (The key the code
  deletes is the \<open>PreviousAllocation\<close> of the released allocation; under the keying it is
  the ID of \<open>m\<close>. The step is one critical section of \<^verbatim>\<open>blockedAllocsLock\<close>; the
  embedding runs it as one step.) The blocked index stays keyed the same way. The sync
  loop never stores into the blocked index: a key that is absent stays absent over every
  further run of the loop, so after a terminal message no later message with that ID
  releases anything, until the reconciler blocks an allocation under the key again. The
  index holds one allocation per key: when the reconciler blocks an allocation, it
  replaces what was stored under the key.
\<close>

theorem allocSync_recv_release:
  fixes c :: Client and T :: "Allocation \<Rightarrow> bool" and st :: SyncState
  assumes "blocked_keyed c" and "allocUpdates c = m # rest"
  defines "c' \<equiv> fst (allocSync_recv T c st)"
  shows "c' =
     (case blockedAllocations c (ID m) of
        Some b \<Rightarrow>
          if T m
          then c\<lparr>allocUpdates := rest,
                 allocs := (allocs c)(ID b \<mapsto> NewAllocRunner (configCopy c) b),
                 blockedAllocations := (blockedAllocations c)(ID m := None),
                 trace := trace c @ [Go (Run (ID b))]\<rparr>
          else c\<lparr>allocUpdates := rest\<rparr>
      | None \<Rightarrow> c\<lparr>allocUpdates := rest\<rparr>)
    \<and> blocked_keyed c'
    \<and> (\<forall>m2 rest2 st2. rest = m2 # rest2 \<and> ID m2 = ID m \<and> T m
           \<and> blockedAllocations c (ID m) \<noteq> None
         \<longrightarrow> fst (allocSync_recv T c' st2) = c'\<lparr>allocUpdates := rest2\<rparr>)
    \<and> (\<forall>k st2 evs. blockedAllocations c' k = None
         \<longrightarrow> blockedAllocations (fst (allocSync T c' st2 evs)) k = None)
    \<and> (T m \<longrightarrow> (\<forall>st2 evs. blockedAllocations (fst (allocSync T c' st2 evs)) (ID m) = None))
    \<and> (\<forall>B. (\<exists>ar. allocs c (PreviousAllocation B) = Some ar \<and> \<not> T (Alloc ar))
         \<longrightarrow> blockedAllocations (runAllocs_add T c B)
               = (blockedAllocations c)(PreviousAllocation B \<mapsto> B))"
proof -
  have step: "c' =
     (case blockedAllocations c (ID m) of
        Some b \<Rightarrow>
          if T m
          then c\<lparr>allocUpdates := rest,
                 allocs := (allocs c)(ID b \<mapsto> NewAllocRunner (configCopy c) b),
                 blockedAllocations := (blockedAllocations c)(ID m := None),
                 trace := trace c @ [Go (Run (ID b))]\<rparr>
          else c\<lparr>allocUpdates := rest\<rparr>
      | None \<Rightarrow> c\<lparr>allocUpdates := rest\<rparr>)"
    using assms(1,2) unfolding c'_def
    by (auto simp: allocSync_recv_def addAlloc_def emit_def Let_def blocked_keyed_def
        split: option.splits)
  have keyed: "blocked_keyed c'"
    using assms(1,2) unfolding c'_def
    by (auto simp: allocSync_recv_def addAlloc_def emit_def Let_def blocked_keyed_def
        split: option.splits)
  have next_one: "fst (allocSync_recv T c' st2) = c'\<lparr>allocUpdates := rest2\<rparr>"
    if "rest = m2 # rest2" "ID m2 = ID m" "T m" "blockedAllocations c (ID m) \<noteq> None"
    for m2 rest2 st2
    using that unfolding step
    by (auto simp: allocSync_recv_def Let_def split: option.splits)
  have gone: "blockedAllocations c' (ID m) = None" if "T m"
    using that unfolding step by (simp split: option.splits)
  have stays: "blockedAllocations (fst (allocSync T c' st2 evs)) k = None"
    if "blockedAllocations c' k = None" for k st2 evs
    using that by (rule allocSync_blocked_None)
  have last_wins: "blockedAllocations (runAllocs_add T c B)
               = (blockedAllocations c)(PreviousAllocation B \<mapsto> B)"
    if "\<exists>ar. allocs c (PreviousAllocation B) = Some ar \<and> \<not> T (Alloc ar)" for B
    using that by (auto simp: runAllocs_add_def getAllocRunners_def emit_def)
  have n: "\<forall>m2 rest2 st2. rest = m2 # rest2 \<and> ID m2 = ID m \<and> T m
           \<and> blockedAllocations c (ID m) \<noteq> None
         \<longrightarrow> fst (allocSync_recv T c' st2) = c'\<lparr>allocUpdates := rest2\<rparr>"
    using next_one by blast
  have s: "\<forall>k st2 evs. blockedAllocations c' k = None
         \<longrightarrow> blockedAllocations (fst (allocSync T c' st2 evs)) k = None"
    using stays by blast
  have g: "T m \<longrightarrow> (\<forall>st2 evs. blockedAllocations (fst (allocSync T c' st2 evs)) (ID m) = None)"
    using stays gone by blast
  have l: "\<forall>B. (\<exists>ar. allocs c (PreviousAllocation B) = Some ar \<and> \<not> T (Alloc ar))
         \<longrightarrow> blockedAllocations (runAllocs_add T c B)
               = (blockedAllocations c)(PreviousAllocation B \<mapsto> B)"
    using last_wins by blast
  show ?thesis
    using step keyed n s g l by (intro conjI) assumption+
qed

text \<open>Scenario S4: the terminal status of \<open>alloc-A\<close> releases \<open>alloc-B\<close>.\<close>

theorem allocSync_recv_release_witness:
  "blocked_keyed S4_client
   \<and> map ID (allocUpdates S4_client) = [''alloc-A'']
   \<and> blockedAllocations S4_client ''alloc-A'' = Some alloc_B
   \<and> blockedAllocations (fst (allocSync_recv ClientTerminated S4_client init_SyncState)) ''alloc-A''
       = None
   \<and> map_option Alloc (allocs (fst (allocSync_recv ClientTerminated S4_client init_SyncState)) ''alloc-B'')
       = Some alloc_B
   \<and> trace (fst (allocSync_recv ClientTerminated S4_client init_SyncState))
       = trace S4_client @ [Go (Run ''alloc-B'')]"
proof -
  have k: "blocked_keyed S4_client"
    unfolding S4_client_def S3_client_def
    by (simp add: updateAllocStatus_def blocked_keyed_def
          blocked_keyed_runAllocs_added [OF blocked_keyed_new, unfolded blocked_keyed_def])
  have u: "allocUpdates S4_client = [stripped S3_client (alloc_A\<lparr>ClientStatus := ''complete''\<rparr>)]"
    by (simp add: S4_client_def updateAllocStatus_def S3_client_def runAllocs_added_def
          runAllocs_add_def addAlloc_def getAllocRunners_def emit_def new_Client_def
          NewAllocRunner_def Alloc_def alloc_A_def alloc_B_def zero_Allocation_def
          ClientTerminated_def)
  from allocSync_recv_release [OF k u, of ClientTerminated init_SyncState, THEN conjunct1] k
  show ?thesis
    by (simp add: S4_client_def updateAllocStatus_def S3_client_def runAllocs_added_def
          runAllocs_add_def addAlloc_def getAllocRunners_def emit_def new_Client_def
          NewAllocRunner_def Alloc_def alloc_A_def alloc_B_def zero_Allocation_def
          ClientTerminated_def stripped_def)
qed

text \<open>
  C2 as claimed fails: \<open>alloc-B\<close> is blocked under \<open>alloc-A\<close>, then \<open>alloc-C\<close>, a second
  successor of \<open>alloc-A\<close>, takes its place in the blocked index. The terminal messages of
  \<open>alloc-A\<close> release \<open>alloc-C\<close>; \<open>alloc-B\<close>, which was blocked, is not released by the
  sync loop at all.
\<close>

theorem blocked_overwritten_counterexample:
  "blockedAllocations S3_client ''alloc-A'' = Some alloc_B
   \<and> blockedAllocations overwritten_client ''alloc-A'' = Some alloc_C
   \<and> map ClientStatus (allocUpdates overwritten_client) = [''complete'', ''complete'']
   \<and> map_option Alloc
        (allocs (fst (allocSync ClientTerminated overwritten_client init_SyncState
                        [Recv, Recv, Tick None 0])) ''alloc-C'') = Some alloc_C
   \<and> allocs (fst (allocSync ClientTerminated overwritten_client init_SyncState
                     [Recv, Recv, Tick None 0])) ''alloc-B'' = None
   \<and> blockedAllocations (fst (allocSync ClientTerminated overwritten_client init_SyncState
                                 [Recv, Recv, Tick None 0])) ''alloc-A'' = None
   \<and> Go (Run ''alloc-B'')
       \<notin> set (trace (fst (allocSync ClientTerminated overwritten_client init_SyncState
                              [Recv, Recv, Tick None 0])))"
  by (simp add: overwritten_client_def S3_client_def updateAllocStatus_def runAllocs_added_def
        runAllocs_add_def addAlloc_def getAllocRunners_def emit_def new_Client_def
        NewAllocRunner_def Alloc_def alloc_A_def alloc_B_def alloc_C_def zero_Allocation_def
        ClientTerminated_def stripped_def allocSync_recv_def allocSync_tick_def
        init_SyncState_def S2_config_def zero_Config_def Let_def)


subsection \<open>Batching of status updates\<close>

lemma rpcs_append: "rpcs (xs @ ys) = rpcs xs @ rpcs ys"
  by (induction xs rule: rpcs.induct) simp_all

lemma sync_inv_init: "sync_inv init_SyncState"
  by (simp add: sync_inv_def init_SyncState_def)

lemma keys_update_ID:
  "\<forall>x \<in> set al. ID (snd x) = fst x \<Longrightarrow> ID v = k
   \<Longrightarrow> \<forall>x \<in> set (AList.update k v al). ID (snd x) = fst x"
  by (induction al) auto

lemma sync_inv_recv: "sync_inv st \<Longrightarrow> sync_inv (snd (allocSync_recv T c st))"
  by (auto simp: sync_inv_def allocSync_recv_def Let_def AList.distinct_update
      split: list.splits option.splits prod.splits dest: keys_update_ID [rotated, OF refl])

lemma sync_inv_tick: "sync_inv st \<Longrightarrow> sync_inv (snd (allocSync_tick c st result rnd))"
  by (auto simp: sync_inv_def allocSync_tick_def Let_def split: option.splits)

lemma allocSync_recv_same_ID:
  assumes "allocUpdates c = m # rest"
  shows "\<exists>c'. allocSync_recv T c st = (c', st\<lparr>updates := AList.update (ID m) m (updates st)\<rparr>)
          \<and> rpcs (trace c') = rpcs (trace c) \<and> config c' = config c \<and> allocUpdates c' = rest"
  using assms
  by (auto simp: allocSync_recv_def addAlloc_def emit_def Let_def rpcs_append
      split: option.splits)

lemma allocSync_recv_window:
  assumes "allocUpdates c = msgs @ rest"
  shows "\<exists>c'. allocSync T c st (replicate (length msgs) Recv @ evs)
               = allocSync T c' (st\<lparr>updates := fold (\<lambda>m. AList.update (ID m) m) msgs (updates st)\<rparr>) evs
          \<and> rpcs (trace c') = rpcs (trace c) \<and> config c' = config c \<and> allocUpdates c' = rest"
  using assms
proof (induction msgs arbitrary: c st)
  case Nil
  then show ?case by (intro exI [of _ c]) simp
next
  case (Cons m ms)
  from Cons.prems have head: "allocUpdates c = m # (ms @ rest)" by simp
  from allocSync_recv_same_ID [OF head, of T st] obtain c1 where
    c1: "allocSync_recv T c st = (c1, st\<lparr>updates := AList.update (ID m) m (updates st)\<rparr>)"
    and r1: "rpcs (trace c1) = rpcs (trace c)" and g1: "config c1 = config c"
    and u1: "allocUpdates c1 = ms @ rest" by blast
  from Cons.IH [OF u1, of "st\<lparr>updates := AList.update (ID m) m (updates st)\<rparr>"]
  obtain c' where
    "allocSync T c1 (st\<lparr>updates := AList.update (ID m) m (updates st)\<rparr>)
         (replicate (length ms) Recv @ evs)
       = allocSync T c' (st\<lparr>updates := fold (\<lambda>m. AList.update (ID m) m) ms
                                           (AList.update (ID m) m (updates st))\<rparr>) evs"
    and "rpcs (trace c') = rpcs (trace c1)" and "config c' = config c1"
    and "allocUpdates c' = rest"
    by auto
  with c1 r1 g1 show ?case by auto
qed

lemma map_of_fold_updates:
  "map_of (fold (\<lambda>m. AList.update (ID m) m) msgs al) j
     = (case find (\<lambda>m. ID m = j) (rev msgs) of Some m \<Rightarrow> Some m | None \<Rightarrow> map_of al j)"
  by (induction msgs arbitrary: al) (auto simp: find_snoc AList.update_conv' split: option.splits)

lemma keys_fold_updates:
  "\<forall>x \<in> set al. ID (snd x) = fst x
   \<Longrightarrow> \<forall>x \<in> set (fold (\<lambda>m. AList.update (ID m) m) msgs al). ID (snd x) = fst x"
proof (induction msgs arbitrary: al)
  case Nil
  then show ?case by simp
next
  case (Cons m ms)
  have "\<forall>x \<in> set (AList.update (ID m) m al). ID (snd x) = fst x"
    using Cons.prems by (rule keys_update_ID) simp
  from Cons.IH [OF this] show ?case by simp
qed

lemma distinct_fold_updates:
  "distinct (map fst al) \<Longrightarrow> distinct (map fst (fold (\<lambda>m. AList.update (ID m) m) msgs al))"
  by (induction msgs arbitrary: al) (simp_all add: AList.distinct_update)

lemma filter_by_key:
  "distinct (map fst al) \<Longrightarrow> \<forall>x \<in> set al. ID (snd x) = fst x
   \<Longrightarrow> filter (\<lambda>a. ID a = j) (map snd al) = (case map_of al j of Some v \<Rightarrow> [v] | None \<Rightarrow> [])"
proof (induction al)
  case Nil
  then show ?case by simp
next
  case (Cons x al)
  obtain k v where x: "x = (k, v)" by (cases x)
  from Cons.prems x have kv: "ID v = k" and k: "k \<notin> fst ` set al" by auto
  from Cons have IH: "filter (\<lambda>a. ID a = j) (map snd al)
                        = (case map_of al j of Some v \<Rightarrow> [v] | None \<Rightarrow> [])"
    by simp
  show ?case
  proof (cases "k = j")
    case True
    with k have "map_of al j = None" by (simp add: map_of_eq_None_iff)
    with True x kv IH show ?thesis by simp
  next
    case False
    with x kv IH show ?thesis by simp
  qed
qed

lemma find_rev_last:
  "filter P xs \<noteq> [] \<Longrightarrow> find P (rev xs) = Some (last (filter P xs))"
proof (induction xs)
  case Nil
  then show ?case by simp
next
  case (Cons x xs)
  show ?case
  proof (cases "filter P xs = []")
    case True
    then have "find P (rev xs) = None"
      by (auto simp: find_None_iff filter_empty_conv)
    with True Cons.prems show ?thesis
      by (auto simp: find_snoc split: if_splits)
  next
    case False
    with Cons.IH show ?thesis by (simp add: find_snoc)
  qed
qed

lemma retryIntv_range:
  "retryIntv c allocSyncRetryIntv rnd
     = (if DevMode (config c) then Second else 5 * Second + int rnd mod (5 * Second))"
  "\<not> DevMode (config c) \<Longrightarrow> 5 * Second \<le> retryIntv c allocSyncRetryIntv rnd
      \<and> retryIntv c allocSyncRetryIntv rnd < 10 * Second"
  by (simp_all add: retryIntv_def allocSyncRetryIntv_def devModeRetryIntv_def RandomStagger_def
      Second_def)

lemma blocked_keyed_recv: "blocked_keyed c \<Longrightarrow> blocked_keyed (fst (allocSync_recv T c st))"
  by (auto simp: allocSync_recv_def addAlloc_def emit_def Let_def blocked_keyed_def
      split: list.splits option.splits)

lemma blocked_keyed_tick: "blocked_keyed c \<Longrightarrow> blocked_keyed (fst (allocSync_tick c st result rnd))"
  by (auto simp: allocSync_tick_def emit_def Let_def blocked_keyed_def split: option.splits)

lemma allocSync_invariants:
  "blocked_keyed c \<Longrightarrow> sync_inv st
   \<Longrightarrow> blocked_keyed (fst (allocSync T c st evs)) \<and> sync_inv (snd (allocSync T c st evs))"
proof (induction T c st evs rule: allocSync.induct)
  case (1 T c st)
  then show ?case by simp
next
  case (2 T c st evs)
  then show ?case by (simp add: blocked_keyed_def emit_def)
next
  case (3 T c st evs)
  obtain c' st' where r: "allocSync_recv T c st = (c', st')"
    by (cases "allocSync_recv T c st")
  from blocked_keyed_recv [OF "3.prems"(1), of T st] sync_inv_recv [OF "3.prems"(2), of T c] r
  have "blocked_keyed c'" "sync_inv st'" by simp_all
  with "3.IH" [OF r [symmetric]] r show ?case by simp
next
  case (4 T c st result rnd evs)
  obtain c' st' where r: "allocSync_tick c st result rnd = (c', st')"
    by (cases "allocSync_tick c st result rnd")
  from blocked_keyed_tick [OF "4.prems"(1), of st result rnd]
    sync_inv_tick [OF "4.prems"(2), of c result rnd] r
  have "blocked_keyed c'" "sync_inv st'" by simp_all
  with "4.IH" [OF r [symmetric]] r show ?case by simp
qed

text \<open>
  C5, as the code has it. Let the sync loop receive a window of messages, among them
  \<open>N \<ge> 1\<close> with the ID \<open>i\<close>, and then take a tick. The tick makes exactly one
  \<^verbatim>\<open>Node.UpdateAlloc\<close> call, and its batch has exactly one entry with the ID \<open>i\<close>: the
  message with that ID received last. For every ID the batch holds the last message of
  the window with that ID, or else what was pending for the ID before the window. When
  the call succeeds the map \<^verbatim>\<open>updates\<close> is emptied and the ticker runs at 200 ms. When it
  fails the map is kept, the loop is staggered and the ticker's period is
  \<^verbatim>\<open>retryIntv(allocSyncRetryIntv)\<close>: 5 s plus a random part below 5 s outside dev mode,
  exactly 1 s in dev mode. A following tick whose call succeeds sends the same batch
  again, empties the map and restores the 200 ms period.
\<close>

theorem allocSync_coalesce:
  fixes c :: Client and st :: SyncState and msgs rest :: "Allocation list"
    and T :: "Allocation \<Rightarrow> bool" and result :: "error option" and e :: error
    and rnd rnd2 :: nat and i :: string
  assumes inv: "sync_inv st" and ch: "allocUpdates c = msgs @ rest"
    and some: "filter (\<lambda>m. ID m = i) msgs \<noteq> []"
  defines "recvs \<equiv> replicate (length msgs) Recv"
  defines "r \<equiv> allocSync T c st (recvs @ [Tick result rnd])"
  defines "r2 \<equiv> allocSync T c st (recvs @ [Tick (Some e) rnd, Tick None rnd2])"
  shows "\<exists>batch.
      rpcs (trace (fst r)) = rpcs (trace c) @ [NodeUpdateAlloc batch (Region (config c))]
    \<and> filter (\<lambda>a. ID a = i) batch = [last (filter (\<lambda>m. ID m = i) msgs)]
    \<and> (\<forall>j. filter (\<lambda>a. ID a = j) batch
             = (case find (\<lambda>m. ID m = j) (rev msgs) of
                  Some m \<Rightarrow> [m]
                | None \<Rightarrow> filter (\<lambda>a. ID a = j) (map snd (updates st))))
    \<and> allocUpdates (fst r) = rest
    \<and> (result = None \<longrightarrow>
          updates (snd r) = [] \<and> \<not> staggered (snd r) \<and> syncTicker (snd r) = allocSyncIntv)
    \<and> (result \<noteq> None \<longrightarrow>
          map snd (updates (snd r)) = batch \<and> staggered (snd r)
          \<and> syncTicker (snd r)
              = (if DevMode (config c) then Second else 5 * Second + int rnd mod (5 * Second))
          \<and> (\<not> DevMode (config c) \<longrightarrow>
                5 * Second \<le> syncTicker (snd r) \<and> syncTicker (snd r) < 10 * Second))
    \<and> rpcs (trace (fst r2))
        = rpcs (trace c) @ [NodeUpdateAlloc batch (Region (config c)),
                            NodeUpdateAlloc batch (Region (config c))]
    \<and> updates (snd r2) = [] \<and> \<not> staggered (snd r2) \<and> syncTicker (snd r2) = allocSyncIntv"
proof -
  define st1 where "st1 = st\<lparr>updates := fold (\<lambda>m. AList.update (ID m) m) msgs (updates st)\<rparr>"
  define batch where "batch = map snd (updates st1)"
  have d0: "distinct (map fst (updates st))"
    and k0: "\<forall>x \<in> set (updates st). ID (snd x) = fst x"
    using inv by (simp_all add: sync_inv_def)
  have d1: "distinct (map fst (updates st1))"
    unfolding st1_def using distinct_fold_updates [OF d0] by simp
  have k1: "\<forall>x \<in> set (updates st1). ID (snd x) = fst x"
    unfolding st1_def using keys_fold_updates [OF k0] by simp
  have every: "filter (\<lambda>a. ID a = j) batch
             = (case find (\<lambda>m. ID m = j) (rev msgs) of
                  Some m \<Rightarrow> [m]
                | None \<Rightarrow> filter (\<lambda>a. ID a = j) (map snd (updates st)))" for j
    unfolding batch_def filter_by_key [OF d1 k1] filter_by_key [OF d0 k0]
    by (simp add: st1_def map_of_fold_updates split: option.splits)
  have one: "filter (\<lambda>a. ID a = i) batch = [last (filter (\<lambda>m. ID m = i) msgs)]"
    unfolding every by (simp add: find_rev_last [OF some])
  have nonempty: "length (updates st1) \<noteq> 0"
    using one by (auto simp: batch_def)
  have stag: "\<not> staggered st1 \<Longrightarrow> syncTicker st1 = allocSyncIntv"
    using inv by (simp add: st1_def sync_inv_def)
  from allocSync_recv_window [OF ch, of T st "[Tick result rnd]"]
  obtain c' where run: "r = allocSync T c' st1 [Tick result rnd]"
    and rp: "rpcs (trace c') = rpcs (trace c)" and cf: "config c' = config c"
    and au: "allocUpdates c' = rest"
    unfolding r_def recvs_def st1_def by auto
  from allocSync_recv_window [OF ch, of T st "[Tick (Some e) rnd, Tick None rnd2]"]
  obtain c'' where run2: "r2 = allocSync T c'' st1 [Tick (Some e) rnd, Tick None rnd2]"
    and rp2: "rpcs (trace c'') = rpcs (trace c)" and cf2: "config c'' = config c"
    unfolding r2_def recvs_def st1_def by auto
  have tick: "r = allocSync_tick c' st1 result rnd"
    unfolding run by (simp split: prod.splits)
  have a: "rpcs (trace (fst r)) = rpcs (trace c) @ [NodeUpdateAlloc batch (Region (config c))]"
    unfolding tick using nonempty rp cf
    by (auto simp: allocSync_tick_def Let_def emit_def rpcs_append batch_def split: option.splits)
  have ch': "allocUpdates (fst r) = rest"
    unfolding tick using au
    by (auto simp: allocSync_tick_def Let_def emit_def split: option.splits)
  have b: "updates (snd r) = [] \<and> \<not> staggered (snd r) \<and> syncTicker (snd r) = allocSyncIntv"
    if "result = None"
    unfolding tick using nonempty that stag
    by (auto simp: allocSync_tick_def Let_def)
  have c: "map snd (updates (snd r)) = batch \<and> staggered (snd r)
           \<and> syncTicker (snd r) = retryIntv c allocSyncRetryIntv rnd"
    if "result \<noteq> None"
    unfolding tick using nonempty that cf
    by (auto simp: allocSync_tick_def Let_def batch_def retryIntv_def)
  have d: "rpcs (trace (fst r2))
             = rpcs (trace c) @ [NodeUpdateAlloc batch (Region (config c)),
                                 NodeUpdateAlloc batch (Region (config c))]
           \<and> updates (snd r2) = [] \<and> \<not> staggered (snd r2) \<and> syncTicker (snd r2) = allocSyncIntv"
    unfolding run2 using nonempty rp2 cf2
    by (simp add: allocSync_tick_def Let_def emit_def rpcs_append batch_def)
  from a one every ch' b c d retryIntv_range [of c rnd] show ?thesis
    by (intro exI [of _ batch]) auto
qed


text \<open>A window with three updates for \<open>alloc-X\<close> (scenario S6) and one for \<open>alloc-A\<close>
  between them: one call, with the last status of \<open>alloc-X\<close> and the update of
  \<open>alloc-A\<close>.\<close>

theorem allocSync_coalesce_witness:
  "sync_inv init_SyncState
   \<and> filter (\<lambda>m. ID m = ''alloc-X'') (allocUpdates window_client) \<noteq> []
   \<and> rpcs (trace (fst (allocSync ClientTerminated window_client init_SyncState
                          [Recv, Recv, Recv, Recv, Tick None 0])))
       = [NodeUpdateAlloc [alloc_X ''complete'', alloc_A] ''global'']
   \<and> syncTicker (snd (allocSync ClientTerminated window_client init_SyncState
                          [Recv, Recv, Recv, Recv, Tick (Some ''no known servers'') 7000000123]))
       = 7 * Second + 123"
  using allocSync_coalesce [OF sync_inv_init, where c = window_client
      and msgs = "allocUpdates window_client" and rest = "[]" and i = "''alloc-X''"
      and T = ClientTerminated and result = None and rnd = 0 and e = "''x''" and ?rnd2.0 = 0]
  by (simp add: window_client_def new_Client_def S2_config_def zero_Config_def alloc_X_def
        alloc_A_def zero_Allocation_def init_SyncState_def allocSync_recv_def allocSync_tick_def
        emit_def sync_inv_def retryIntv_def allocSyncRetryIntv_def RandomStagger_def Second_def)

text \<open>
  C5 as claimed fails in dev mode: after a failed call the ticker's period is 1 s, which
  is not within \<open>[5 s, 10 s)\<close>.
\<close>

theorem allocSync_devmode_counterexample:
  "DevMode (config (S6_client S1_config))
   \<and> syncTicker (snd (allocSync ClientTerminated (S6_client S1_config) init_SyncState
                         [Recv, Recv, Recv, Tick (Some ''no known servers'') 7000000123]))
       = Second
   \<and> \<not> 5 * Second
         \<le> syncTicker (snd (allocSync ClientTerminated (S6_client S1_config) init_SyncState
                               [Recv, Recv, Recv, Tick (Some ''no known servers'') 7000000123]))"
  by (simp add: S6_client_def new_Client_def S1_config_def zero_Config_def alloc_X_def
        zero_Allocation_def init_SyncState_def allocSync_recv_def allocSync_tick_def emit_def
        retryIntv_def devModeRetryIntv_def Second_def)

subsection \<open>The query index of the watcher\<close>

lemma watch_round_index:
  "MinQueryIndex (fst (snd (watch_round su c ws env)))
     = (if reaches_update su env then max (MinQueryIndex ws) (resp_Index env)
        else MinQueryIndex ws)"
  by (auto simp: watch_round_def watch_finish_def reaches_update_def resp_Index_def Let_def
        getAllocRunners_def emit_def max_def split: sum.splits)

lemma watch_round_mono:
  "MinQueryIndex ws \<le> MinQueryIndex (fst (snd (watch_round su c ws env)))"
  by (simp add: watch_round_index)

lemma watchAllocations_mono:
  "MinQueryIndex ws \<le> MinQueryIndex (snd (watchAllocations su c ws envs))"
proof (induction envs arbitrary: c ws)
  case Nil
  then show ?case by simp
next
  case (Cons env envs)
  obtain c' ws' g where r: "watch_round su c ws env = (c', ws', g)"
    by (cases "watch_round su c ws env")
  from watch_round_mono [of ws su c env] r have "MinQueryIndex ws \<le> MinQueryIndex ws'" by simp
  with Cons.IH [of ws' c'] r show ?case by (auto intro: order_trans)
qed

lemma watchAllocations_prefix:
  "MinQueryIndex (snd (watchAllocations su c ws es1))
     \<le> MinQueryIndex (snd (watchAllocations su c ws (es1 @ es2)))"
proof (induction es1 arbitrary: c ws)
  case Nil
  then show ?case by (simp add: watchAllocations_mono)
next
  case (Cons env es1)
  obtain c' ws' g where r: "watch_round su c ws env = (c', ws', g)"
    by (cases "watch_round su c ws env")
  with Cons.IH [of c' ws'] show ?case by simp
qed

text \<open>
  C6, as the code has it. A round of the watcher that reaches the statement ``Update the
  query index'' (\<^verbatim>\<open>Node.GetClientAllocs\<close> answered, and \<^verbatim>\<open>Alloc.GetAllocs\<close> answered too
  when the pull set is not empty, with no shutdown seen before) sets
  \<^verbatim>\<open>MinQueryIndex\<close> to the maximum of its value and the reply's index; every other
  round leaves it as it was. So over every run of the loop \<^verbatim>\<open>MinQueryIndex\<close> is never
  below its starting value, and the value after a longer run is never below the value
  after a shorter run of the same execution.
\<close>

theorem watchAllocations_MinQueryIndex:
  "MinQueryIndex (fst (snd (watch_round su c ws env)))
     = (if reaches_update su env then max (MinQueryIndex ws) (resp_Index env)
        else MinQueryIndex ws)
   \<and> MinQueryIndex ws \<le> MinQueryIndex (snd (watchAllocations su c ws envs))
   \<and> MinQueryIndex (snd (watchAllocations su c ws es1))
       \<le> MinQueryIndex (snd (watchAllocations su c ws (es1 @ es2)))"
  by (simp only: watch_round_index watchAllocations_mono watchAllocations_prefix simp_thms)

text \<open>Scenario S3: both allocations are pulled, and the index advances to 7.\<close>

lemma S3_watch:
  "pull_set older Map.empty S3_reply = [''alloc-A'', ''alloc-B'']
   \<and> MinQueryIndex (snd (watchAllocations older (new_Client S2_config 0)
         \<lparr>MinQueryIndex = 0, sent = []\<rparr> [S3_round (Inr [alloc_A, alloc_B])])) = 7"
  by (simp add: pull_set_def wants_pull_def S3_reply_def S3_round_def watch_round_def
        watch_finish_def getAllocRunners_def emit_def new_Client_def Let_def)

text \<open>
  C6 as claimed fails: when \<^verbatim>\<open>Alloc.GetAllocs\<close> fails, the round ends with
  \<^verbatim>\<open>continue\<close> before the update, and \<^verbatim>\<open>MinQueryIndex\<close> stays 0 although the reply of
  \<^verbatim>\<open>Node.GetClientAllocs\<close> had the index 7.
\<close>

theorem watch_round_failed_pull_counterexample:
  "getClientAllocs (S3_round (Inl ''no known servers'')) = Inr S3_reply
   \<and> Index S3_reply = 7
   \<and> MinQueryIndex (fst (snd (watch_round older (new_Client S2_config 0)
         \<lparr>MinQueryIndex = 0, sent = []\<rparr> (S3_round (Inl ''no known servers''))))) = 0
   \<and> max (0 :: 64 word) (Index S3_reply) \<noteq> 0"
  by (simp add: pull_set_def wants_pull_def S3_reply_def S3_round_def watch_round_def
        watch_finish_def getAllocRunners_def emit_def new_Client_def Let_def)

subsection \<open>Heartbeat failures\<close>

lemma Contains_skip_prefix:
  "x \<notin> set p \<Longrightarrow> Contains (p @ s) (x # xs) = Contains s (x # xs)"
  by (induction p) auto

lemma Contains_wrapped:
  "Contains (''failed to update status: '' @ e) ''node not found'' = Contains e ''node not found''"
  by (rule Contains_skip_prefix) simp

lemma registerNode_frame:
  "Node (config (snd (registerNode c (Inl e) t))) = Node (config c)
   \<and> Region (config (snd (registerNode c (Inl e) t))) = Region (config c)
   \<and> rpcs (trace (snd (registerNode c (Inl e) t)))
       = rpcs (trace c) @ [NodeRegister (Node (config c)) (Region (config c))]
   \<and> fst (registerNode c (Inl e) t) \<noteq> None"
  by (simp add: registerNode_def Let_def emit_def rpcs_append)

lemma retryRegisterNode_until_success:
  assumes "list_all fails fs" and "reg_result ok = Inr resp"
  shows "\<exists>c'. retryRegisterNode c (fs @ ok # rest) = Some (c', rest)
     \<and> rpcs (trace c') = rpcs (trace c)
          @ replicate (Suc (length fs)) (NodeRegister (Node (config c)) (Region (config c)))
     \<and> Status (Node (config c')) = NodeStatusReady
     \<and> heartbeatTTL c' = HeartbeatTTL resp"
  using assms
proof (induction fs arbitrary: c)
  case Nil
  then show ?case
    by (simp add: registerNode_def Let_def emit_def rpcs_append)
next
  case (Cons a fs)
  from Cons.prems obtain e where e: "reg_result a = Inl e" and ns: "\<not> reg_shutdown a"
    by (auto simp: fails_def split: sum.splits)
  obtain err c1 where r: "registerNode c (Inl e) (reg_now a) = (Some err, c1)"
    using registerNode_frame [of c e "reg_now a"] by (cases "registerNode c (Inl e) (reg_now a)") auto
  define c2 where "c2 = emit [Printf ''[ERR] client: %v'' [S err],
                          After (retryIntv c1 registerRetryIntv (reg_rnd a))] c1"
  from r registerNode_frame [of c e "reg_now a"]
  have f: "Node (config c2) = Node (config c)" "Region (config c2) = Region (config c)"
    "rpcs (trace c2) = rpcs (trace c) @ [NodeRegister (Node (config c)) (Region (config c))]"
    by (simp_all add: c2_def emit_def rpcs_append)
  from Cons.prems have "list_all fails fs" by simp
  from Cons.IH [OF this Cons.prems(2), of c2] obtain c' where
    "retryRegisterNode c2 (fs @ ok # rest) = Some (c', rest)"
    "rpcs (trace c') = rpcs (trace c2)
          @ replicate (Suc (length fs)) (NodeRegister (Node (config c2)) (Region (config c2)))"
    "Status (Node (config c')) = NodeStatusReady" "heartbeatTTL c' = HeartbeatTTL resp"
    by blast
  with e ns r f show ?case
    by (simp add: c2_def Let_def)
qed


text \<open>
  C8. Let \<^verbatim>\<open>Node.UpdateStatus\<close> fail with the message \<open>e\<close> when the heartbeat timer
  fires. If \<open>e\<close> contains \<open>node not found\<close>, the loop logs the re-registration, runs
  \<^verbatim>\<open>retryRegisterNode\<close> once and then arms the heartbeat timer with
  \<^verbatim>\<open>RandomStagger(initialHeartbeatStagger)\<close>, a delay in \<open>[0, 10 s)\<close>; when the
  registration succeeds after any number of failed attempts, the RPCs of the round are
  the heartbeat followed by those attempts and the one successful \<^verbatim>\<open>Node.Register\<close>, and
  the node is ready. If \<open>e\<close> does not contain \<open>node not found\<close>, no registration is
  made: the loop logs the failure and arms the timer with \<^verbatim>\<open>retryIntv(registerRetryIntv)\<close>,
  which is 15 s plus a random part below 15 s, and exactly 1 s in dev mode; in both
  modes it is the base (15 s, in dev mode 1 s) plus a part that is at least 0 and below
  the base.
\<close>

theorem heartbeat_fire_stale:
  fixes c :: Client and env :: heartbeat_env and e :: error
  assumes err: "hb_result env = Inl e"
  defines "node \<equiv> Node (config c)" and "region \<equiv> Region (config c)"
  defines "c1 \<equiv> c\<lparr>trace := trace c @ [RPC (NodeUpdateStatus (ID' node) NodeStatusReady region)]\<rparr>"
  defines "d \<equiv> int (hb_rnd env) mod (10 * Second)"
  defines "intv \<equiv> (if DevMode (config c) then Second
                     else 15 * Second + int (hb_rnd env) mod (15 * Second))"
  defines "base \<equiv> (if DevMode (config c) then Second else 15 * Second)"
  shows
  "(Contains e ''node not found'' \<longrightarrow>
      heartbeat_fire c env
        = (case retryRegisterNode
                  (c1\<lparr>trace := trace c1 @ [Printf ''[INFO] client: re-registering node'' []]\<rparr>)
                  (hb_register env) of
             None \<Rightarrow> None
           | Some (c2, rest) \<Rightarrow> Some (c2\<lparr>trace := trace c2 @ [After d]\<rparr>, d))
      \<and> 0 \<le> d \<and> d < 10 * Second
      \<and> (\<forall>fs ok resp rest.
            hb_register env = fs @ ok # rest \<and> list_all fails fs \<and> reg_result ok = Inr resp
            \<longrightarrow> (\<exists>c'. heartbeat_fire c env = Some (c', d)
                  \<and> rpcs (trace c')
                      = rpcs (trace c) @ NodeUpdateStatus (ID' node) NodeStatusReady region
                          # replicate (Suc (length fs)) (NodeRegister node region)
                  \<and> Status (Node (config c')) = NodeStatusReady)))
   \<and> (\<not> Contains e ''node not found'' \<longrightarrow>
        heartbeat_fire c env
          = Some (c1\<lparr>trace := trace c1 @
                     [Printf ''[ERR] client: heartbeating failed. Retrying in %v: %v''
                        [N intv, S (''failed to update status: '' @ e)],
                      After intv]\<rparr>, intv)
        \<and> (\<exists>r. 0 \<le> r \<and> r < base \<and> intv = base + r)
        \<and> (\<not> DevMode (config c) \<longrightarrow> 15 * Second \<le> intv \<and> intv < 30 * Second))"
proof -
  have u: "updateNodeStatus c (hb_result env) (hb_now env) (hb_refresh env)
             = (Some (''failed to update status: '' @ e), c1)"
    by (simp add: err updateNodeStatus_def Let_def emit_def c1_def node_def region_def)
  have dr: "RandomStagger initialHeartbeatStagger (hb_rnd env) = d" "0 \<le> d" "d < 10 * Second"
    by (simp_all add: RandomStagger_def initialHeartbeatStagger_def d_def Second_def)
  have ir: "retryIntv c1 registerRetryIntv (hb_rnd env) = intv"
    "\<not> DevMode (config c) \<Longrightarrow> 15 * Second \<le> intv \<and> intv < 30 * Second"
    by (simp_all add: retryIntv_def registerRetryIntv_def devModeRetryIntv_def RandomStagger_def
          intv_def c1_def Second_def)
  have stale: "heartbeat_fire c env
        = (case retryRegisterNode
                  (c1\<lparr>trace := trace c1 @ [Printf ''[INFO] client: re-registering node'' []]\<rparr>)
                  (hb_register env) of
             None \<Rightarrow> None
           | Some (c2, rest) \<Rightarrow> Some (c2\<lparr>trace := trace c2 @ [After d]\<rparr>, d))"
    if "Contains e ''node not found''"
    using that
    by (simp add: heartbeat_fire_def u Contains_wrapped dr emit_def Let_def
          split: option.splits prod.splits)
  have once: "\<exists>c'. heartbeat_fire c env = Some (c', d)
                  \<and> rpcs (trace c')
                      = rpcs (trace c) @ NodeUpdateStatus (ID' node) NodeStatusReady region
                          # replicate (Suc (length fs)) (NodeRegister node region)
                  \<and> Status (Node (config c')) = NodeStatusReady"
    if "Contains e ''node not found''" "hb_register env = fs @ ok # rest" "list_all fails fs"
      "reg_result ok = Inr resp" for fs ok resp rest
  proof -
    from retryRegisterNode_until_success [OF that(3,4),
        of "c1\<lparr>trace := trace c1 @ [Printf ''[INFO] client: re-registering node'' []]\<rparr>" rest]
    obtain c2 where
      "retryRegisterNode
         (c1\<lparr>trace := trace c1 @ [Printf ''[INFO] client: re-registering node'' []]\<rparr>)
         (fs @ ok # rest) = Some (c2, rest)"
      "rpcs (trace c2) = rpcs (trace c) @ NodeUpdateStatus (ID' node) NodeStatusReady region
                          # replicate (Suc (length fs)) (NodeRegister node region)"
      "Status (Node (config c2)) = NodeStatusReady"
      by (auto simp: c1_def rpcs_append node_def region_def)
    then show ?thesis
      unfolding stale [OF that(1)] that(2) by (simp add: rpcs_append)
  qed
  have other: "heartbeat_fire c env
          = Some (c1\<lparr>trace := trace c1 @
                     [Printf ''[ERR] client: heartbeating failed. Retrying in %v: %v''
                        [N intv, S (''failed to update status: '' @ e)],
                      After intv]\<rparr>, intv)"
    if "\<not> Contains e ''node not found''"
    using that by (simp add: heartbeat_fire_def u Contains_wrapped ir(1) emit_def Let_def)
  have rand: "\<exists>r. 0 \<le> r \<and> r < base \<and> intv = base + r"
  proof (cases "DevMode (config c)")
    case True
    then show ?thesis
      by (intro exI [of _ 0]) (simp add: base_def intv_def Second_def)
  next
    case False
    then show ?thesis
      by (intro exI [of _ "int (hb_rnd env) mod (15 * Second)"])
         (simp add: base_def intv_def Second_def)
  qed
  from stale once other dr ir(2) rand show ?thesis by blast
qed

theorem heartbeat_fire_stale_witness:
  "map_option (\<lambda>(c', d). (rpcs (trace c'), d))
       (heartbeat_fire (new_Client S2_config 0) (S5_env ''rpc: node not found''))
     = Some ([NodeUpdateStatus [] NodeStatusReady ''global'',
              NodeRegister (Node S2_config) ''global''], Second + 7)
   \<and> map_option snd (heartbeat_fire (new_Client S2_config 0) (S5_env ''no known servers''))
     = Some (16 * Second + 7)"
  using heartbeat_fire_stale [of "S5_env ''rpc: node not found''" "''rpc: node not found''"
        "new_Client S2_config 0"]
      heartbeat_fire_stale [of "S5_env ''no known servers''" "''no known servers''"
        "new_Client S2_config 0"]
  by (simp add: S5_env_def register_ok_def new_Client_def S2_config_def zero_Config_def
        fails_def Second_def heartbeat_fire_def updateNodeStatus_def registerNode_def emit_def
        retryIntv_def RandomStagger_def initialHeartbeatStagger_def registerRetryIntv_def
        registerErrGrace_def zero_Node_def Let_def)

subsection \<open>Start-up errors\<close>

lemma fingerprint_loop_append:
  "fingerprint_loop w wl c (pre @ rest) applied skipped
     = (case fingerprint_loop w wl c pre applied skipped of
          (Some err, r) \<Rightarrow> (Some err, r)
        | (None, c1, applied1, skipped1) \<Rightarrow> fingerprint_loop w wl c1 rest applied1 skipped1)"
proof (cases "wl = []")
  case True
  then show ?thesis
    by (induction pre arbitrary: c applied skipped)
       (simp_all add: Let_def split: sum.splits prod.splits)
next
  case False
  then show ?thesis
    by (induction pre arbitrary: c applied skipped)
       (simp_all add: Let_def split: sum.splits prod.splits)
qed

text \<open>
  C3, as the code has it. When the one-shot \<^verbatim>\<open>Fingerprint\<close> call of a built-in
  fingerprinter returns an error during the boot pass, \<^verbatim>\<open>fingerprint\<close> returns that error
  at once: the client is left as the fingerprinters before it left it (nothing is logged
  for the error), the fingerprinters after it are not run, whatever they are, and
  \<^verbatim>\<open>NewClient\<close> fails with the error \<open>fingerprinting failed\<close>.
\<close>

theorem fingerprint_error_aborts:
  fixes w :: World and c :: Client
  defines "c0 \<equiv> c\<lparr>trace := trace c @ [Printf ''[DEBUG] client: built-in fingerprints: %v''
                                          [SL (BuiltinFingerprints w)]]\<rparr>"
  assumes names: "BuiltinFingerprints w = pre @ name # post"
    and before: "fingerprint_loop w (whitelist (config c)) c0 pre [] [] = (None, c1, applied, skipped)"
    and listed: "whitelist (config c) = [] \<or> name \<in> set (whitelist (config c))"
    and new: "NewFingerprint w name = Inr f"
    and fails: "Fingerprint f (config c1) (Node (config c1)) = Inl err"
  shows "fingerprint w c = (Some err, c1)
    \<and> (\<forall>cfg fs ci fs'.
          init w (new_Client cfg (Now w)) = (None, ci) \<and> setupNode w fs ci = (None, c, fs')
          \<longrightarrow> NewClient w fs cfg = (Inl (''fingerprinting failed: '' @ err), fs'))"
proof -
  have "fingerprint_loop w (whitelist (config c)) c0 (pre @ name # post) [] []
          = (Some err, c1, applied, skipped)"
    using listed new fails by (auto simp: fingerprint_loop_append before)
  then have f: "fingerprint w c = (Some err, c1)"
    by (simp add: fingerprint_def names emit_def c0_def Let_def)
  then show ?thesis
    by (simp add: NewClient_def Let_def)
qed

theorem fingerprint_error_aborts_witness:
  "fst (fingerprint (boot_world [''arch'', ''cpu''] [] Map.empty) (new_Client S2_config 0))
     = Some ''cannot read cpuinfo''
   \<and> Attributes (Node (config (snd (fingerprint (boot_world [''arch'', ''cpu''] [] Map.empty)
                                     (new_Client S2_config 0))))) ''arch''
     = Some ''amd64''"
proof -
  let ?w = "boot_world [''arch'', ''cpu''] [] Map.empty"
  let ?c = "new_Client S2_config 0"
  let ?c1 = "?c\<lparr>config := (config ?c)
                 \<lparr>Node := (Node (config ?c))\<lparr>Attributes := [''arch'' \<mapsto> ''amd64'']\<rparr>\<rparr>,
               trace := [Printf ''[DEBUG] client: built-in fingerprints: %v''
                           [SL [''arch'', ''cpu'']]]\<rparr>"
  have names: "BuiltinFingerprints ?w = [''arch''] @ ''cpu'' # []"
    by (simp add: boot_world_def)
  have before: "fingerprint_loop ?w (whitelist (config ?c))
                  (?c\<lparr>trace := trace ?c @ [Printf ''[DEBUG] client: built-in fingerprints: %v''
                                             [SL (BuiltinFingerprints ?w)]]\<rparr>)
                  [''arch''] [] [] = (None, ?c1, [''arch''], [])"
    by (simp add: boot_world_def ArchFingerprint_def new_Client_def S2_config_def
          zero_Config_def zero_Node_def)
  have listed: "whitelist (config ?c) = [] \<or> ''cpu'' \<in> set (whitelist (config ?c))"
    by (simp add: new_Client_def S2_config_def zero_Config_def)
  have new: "NewFingerprint ?w ''cpu'' = Inr failing_cpu"
    by (simp add: boot_world_def)
  have fails: "Fingerprint failing_cpu (config ?c1) (Node (config ?c1)) = Inl ''cannot read cpuinfo''"
    by (simp add: failing_cpu_def)
  from fingerprint_error_aborts [OF names before listed new fails] show ?thesis
    by (simp add: new_Client_def)
qed

text \<open>
  C3 as claimed fails: the failing fingerprinter \<open>cpu\<close> comes first, \<open>arch\<close> is never
  run (the node has no attribute \<open>arch\<close>), the error is in no log line, and the client
  does not start.
\<close>

theorem fingerprint_fatal_counterexample:
  "fst (NewClient (boot_world [''cpu'', ''arch''] [] Map.empty) S2_FS S2_config)
     = Inl ''fingerprinting failed: cannot read cpuinfo''
   \<and> fingerprint_loop (boot_world [''cpu'', ''arch''] [] Map.empty) []
        (new_Client S2_config 0) [''cpu'', ''arch''] [] []
     = (Some ''cannot read cpuinfo'', new_Client S2_config 0, [], [])
   \<and> Attributes (Node (config (snd (fingerprint (boot_world [''cpu'', ''arch''] [] Map.empty)
                                     (new_Client S2_config 0))))) ''arch'' = None
   \<and> trace (snd (fingerprint (boot_world [''cpu'', ''arch''] [] Map.empty)
                 (new_Client S2_config 0)))
     = [Printf ''[DEBUG] client: built-in fingerprints: %v'' [SL [''cpu'', ''arch'']]]"
  by (simp add: new_Client_def S2_config_def zero_Config_def zero_Node_def zero_Resources_def
        S2_FS_def empty_FS_def boot_world_def failing_cpu_def ArchFingerprint_def
        NewClient_def init_def setupNode_def nodeID_def ReadFile_def Join_def Clean_def
        clean_step_def fingerprint_def
        reservePorts_def restoreState_def restore_entry_def ErrorOrNil_def multierror_Error_def
        NewAllocRunner_def Alloc_def zero_Allocation_def emit_def Let_def)

lemma restore_entries:
  "fold (restore_entry w) list (c, errs)
     = (c\<lparr>allocs := (\<lambda>i. if i \<in> set list
                           then Some (NewAllocRunner (configCopy c) (zero_Allocation\<lparr>ID := i\<rparr>))
                           else allocs c i),
          trace := trace c @
            map (\<lambda>i. case RestoreState w i of
                        Some err \<Rightarrow> Printf ''[ERR] client: failed to restore state for alloc %s: %v''
                                      [S i, S err]
                      | None \<Rightarrow> Go (Run i)) list\<rparr>,
        errs @ List.map_filter (RestoreState w) list)"
proof (induction list arbitrary: c errs)
  case Nil
  then show ?case by (simp add: List.map_filter_simps)
next
  case (Cons i list)
  define c1 where "c1 = fst (restore_entry w i (c, []))"
  have step: "restore_entry w i (c, errs)
                = (c1, errs @ (case RestoreState w i of Some err \<Rightarrow> [err] | None \<Rightarrow> []))"
    by (simp add: c1_def restore_entry_def Let_def split: option.splits)
  have c1: "configCopy c1 = configCopy c"
    "allocs c1 = (allocs c)(i \<mapsto> NewAllocRunner (configCopy c) (zero_Allocation\<lparr>ID := i\<rparr>))"
    "trace c1 = trace c @ [case RestoreState w i of
                        Some err \<Rightarrow> Printf ''[ERR] client: failed to restore state for alloc %s: %v''
                                      [S i, S err]
                      | None \<Rightarrow> Go (Run i)]"
    "c1\<lparr>allocs := allocs c, trace := trace c\<rparr> = c"
    by (simp_all add: c1_def restore_entry_def emit_def Let_def
          split: option.splits)
  have "fold (restore_entry w) (i # list) (c, errs)
          = fold (restore_entry w) list (restore_entry w i (c, errs))"
    by simp
  also have "\<dots> = (c1\<lparr>allocs := (\<lambda>j. if j \<in> set list
                           then Some (NewAllocRunner (configCopy c1) (zero_Allocation\<lparr>ID := j\<rparr>))
                           else allocs c1 j),
          trace := trace c1 @
            map (\<lambda>i. case RestoreState w i of
                        Some err \<Rightarrow> Printf ''[ERR] client: failed to restore state for alloc %s: %v''
                                      [S i, S err]
                      | None \<Rightarrow> Go (Run i)) list\<rparr>,
        (errs @ (case RestoreState w i of Some err \<Rightarrow> [err] | None \<Rightarrow> []))
          @ List.map_filter (RestoreState w) list)"
    unfolding step by (rule Cons.IH)
  also have "\<dots> = (c\<lparr>allocs := (\<lambda>j. if j \<in> set (i # list)
                           then Some (NewAllocRunner (configCopy c) (zero_Allocation\<lparr>ID := j\<rparr>))
                           else allocs c j),
          trace := trace c @
            map (\<lambda>i. case RestoreState w i of
                        Some err \<Rightarrow> Printf ''[ERR] client: failed to restore state for alloc %s: %v''
                                      [S i, S err]
                      | None \<Rightarrow> Go (Run i)) (i # list)\<rparr>,
        errs @ List.map_filter (RestoreState w) (i # list))"
  proof -
    have m: "(\<lambda>j. if j \<in> set list
                           then Some (NewAllocRunner (configCopy c1) (zero_Allocation\<lparr>ID := j\<rparr>))
                           else allocs c1 j)
          = (\<lambda>j. if j \<in> set (i # list)
                           then Some (NewAllocRunner (configCopy c) (zero_Allocation\<lparr>ID := j\<rparr>))
                           else allocs c j)"
      by (auto simp: c1(1,2) fun_eq_iff)
    have "c1\<lparr>allocs := A, trace := B\<rparr> = c\<lparr>allocs := A, trace := B\<rparr>" for A B
      by (subst c1(4) [symmetric]) simp
    then show ?thesis
      by (simp add: m c1(3) List.map_filter_simps split: option.splits)
  qed
  finally show ?case .
qed

text \<open>
  C7, as the code has it. Outside dev mode, with the allocation directories listed,
  \<^verbatim>\<open>restoreState\<close> goes through every entry: each gets a runner in the alloc index; where
  the runner's \<^verbatim>\<open>RestoreState\<close> fails the error is logged and collected and the loop goes
  on, where it succeeds the runner's \<^verbatim>\<open>Run\<close> is started. The result is \<^verbatim>\<open>nil\<close> exactly
  when no entry failed, and otherwise the multi-error of the collected errors, in the
  order of the entries. \<^verbatim>\<open>NewClient\<close> returns such a multi-error as the error
  \<open>failed to restore state\<close>: a restore error ends the start-up.
\<close>

theorem restoreState_collects:
  fixes w :: World and c :: Client
  assumes nondev: "\<not> DevMode (config c)"
    and dir: "ReadDir w (Join (StateDir (config c)) ''alloc'') = DirOk list"
  defines "errs \<equiv> List.map_filter (RestoreState w) list"
  defines "c' \<equiv> snd (restoreState w c)"
  shows "fst (restoreState w c) = ErrorOrNil errs
    \<and> (fst (restoreState w c) = None) = (\<forall>i \<in> set list. RestoreState w i = None)
    \<and> (\<forall>i. allocs c' i = (if i \<in> set list
                            then Some (NewAllocRunner (configCopy c) (zero_Allocation\<lparr>ID := i\<rparr>))
                            else allocs c i))
    \<and> trace c' = trace c @
          map (\<lambda>i. case RestoreState w i of
                      Some err \<Rightarrow> Printf ''[ERR] client: failed to restore state for alloc %s: %v''
                                    [S i, S err]
                    | None \<Rightarrow> Go (Run i)) list
    \<and> (\<forall>cfg fs c1 c2 fs2 c3.
          init w (new_Client cfg (Now w)) = (None, c1) \<and> setupNode w fs c1 = (None, c2, fs2)
          \<and> fingerprint w c2 = (None, c3)
          \<and> c = (reservePorts c3)
                  \<lparr>configCopy := config (reservePorts c3),
                   trace := trace (reservePorts c3)
                              @ map AddPrimaryServer (Servers (config (reservePorts c3)))\<rparr>
          \<and> errs \<noteq> []
          \<longrightarrow> NewClient w fs cfg
                = (Inl (''failed to restore state: '' @ multierror_Error errs), fs2))"
proof -
  have r: "restoreState w c = (ErrorOrNil errs, fst (fold (restore_entry w) list (c, [])))"
    using nondev dir by (simp add: restoreState_def errs_def restore_entries)
  have a: "fst (restoreState w c) = ErrorOrNil errs"
    by (simp add: r)
  have "(errs = []) = (\<forall>i \<in> set list. RestoreState w i = None)"
    unfolding errs_def by (induction list) (auto simp: List.map_filter_simps split: option.splits)
  then have b: "(fst (restoreState w c) = None) = (\<forall>i \<in> set list. RestoreState w i = None)"
    by (simp add: a ErrorOrNil_def)
  have cd: "(\<forall>i. allocs c' i = (if i \<in> set list
                            then Some (NewAllocRunner (configCopy c) (zero_Allocation\<lparr>ID := i\<rparr>))
                            else allocs c i))"
    "trace c' = trace c @
          map (\<lambda>i. case RestoreState w i of
                      Some err \<Rightarrow> Printf ''[ERR] client: failed to restore state for alloc %s: %v''
                                    [S i, S err]
                    | None \<Rightarrow> Go (Run i)) list"
    by (simp_all add: c'_def r restore_entries)
  have e: "NewClient w fs cfg = (Inl (''failed to restore state: '' @ multierror_Error errs), fs2)"
    if "init w (new_Client cfg (Now w)) = (None, c1)" "setupNode w fs c1 = (None, c2, fs2)"
      "fingerprint w c2 = (None, c3)"
      "c = (reservePorts c3)
                  \<lparr>configCopy := config (reservePorts c3),
                   trace := trace (reservePorts c3)
                              @ map AddPrimaryServer (Servers (config (reservePorts c3)))\<rparr>"
      "errs \<noteq> []" for cfg fs c1 c2 fs2 c3
  proof -
    have "(let c4 = reservePorts c3; c5 = c4\<lparr>configCopy := config c4\<rparr>
           in emit (map AddPrimaryServer (Servers (configCopy c5))) c5) = c"
      by (simp add: that(4) emit_def Let_def)
    then show ?thesis
      using that(1,2,3,5) a by (simp add: NewClient_def Let_def r ErrorOrNil_def)
  qed
  from a b cd e show ?thesis by blast
qed

theorem restoreState_collects_witness:
  "\<not> DevMode (config (new_Client S2_config 0))
   \<and> fst (restoreState (boot_world [''arch''] [''alloc-1'', ''alloc-2''] [''alloc-1'' \<mapsto> ''unexpected EOF''])
           (new_Client S2_config 0))
     = Some (multierror_Error [''unexpected EOF''])
   \<and> trace (snd (restoreState (boot_world [''arch''] [''alloc-1'', ''alloc-2''] [''alloc-1'' \<mapsto> ''unexpected EOF''])
                   (new_Client S2_config 0)))
     = [Printf ''[ERR] client: failed to restore state for alloc %s: %v''
          [S ''alloc-1'', S ''unexpected EOF''],
        Go (Run ''alloc-2'')]
   \<and> map_option Alloc
        (allocs (snd (restoreState (boot_world [''arch''] [''alloc-1'', ''alloc-2''] [''alloc-1'' \<mapsto> ''unexpected EOF''])
                        (new_Client S2_config 0))) ''alloc-1'')
     = Some (zero_Allocation\<lparr>ID := ''alloc-1''\<rparr>)"
  using restoreState_collects [of "new_Client S2_config 0"
      "boot_world [''arch''] [''alloc-1'', ''alloc-2''] [''alloc-1'' \<mapsto> ''unexpected EOF'']"
      "[''alloc-1'', ''alloc-2'']"]
  by (simp add: new_Client_def S2_config_def zero_Config_def boot_world_def Join_def Clean_def
        clean_step_def
        ErrorOrNil_def List.map_filter_simps NewAllocRunner_def Alloc_def)

text \<open>Scenario S2: a warm start reads the node ID from the file and restores \<open>alloc-1\<close>.\<close>

lemma S2_scenario:
  "(case fst (NewClient (boot_world [''arch''] [''alloc-1''] Map.empty) S2_FS S2_config) of
      Inl err \<Rightarrow> False
    | Inr c \<Rightarrow>
        ID' (Node (config c)) = ''7c9e6679-7425-40de-944b-e07fc1f90ae7''
        \<and> map_option Alloc (allocs c ''alloc-1'') = Some (zero_Allocation\<lparr>ID := ''alloc-1''\<rparr>)
        \<and> Go (Run ''alloc-1'') \<in> set (trace c))"
  by (simp add: new_Client_def S2_config_def zero_Config_def zero_Node_def zero_Resources_def
        S2_FS_def empty_FS_def boot_world_def failing_cpu_def ArchFingerprint_def
        NewClient_def init_def setupNode_def nodeID_def ReadFile_def Join_def Clean_def
        clean_step_def fingerprint_def
        reservePorts_def restoreState_def restore_entry_def ErrorOrNil_def multierror_Error_def
        NewAllocRunner_def Alloc_def zero_Allocation_def emit_def Let_def)

text \<open>
  C7 as claimed fails: the state of \<open>alloc-1\<close> cannot be read, \<open>alloc-2\<close> is still
  restored, and \<^verbatim>\<open>NewClient\<close> returns the collected error instead of a client.
\<close>

theorem restore_error_fatal_counterexample:
  "fst (NewClient (boot_world [''arch''] [''alloc-1'', ''alloc-2''] [''alloc-1'' \<mapsto> ''unexpected EOF''])
         S2_FS S2_config)
     = Inl (''failed to restore state: '' @ multierror_Error [''unexpected EOF''])"
  by (simp add: new_Client_def S2_config_def zero_Config_def zero_Node_def zero_Resources_def
        S2_FS_def empty_FS_def boot_world_def failing_cpu_def ArchFingerprint_def
        NewClient_def init_def setupNode_def nodeID_def ReadFile_def Join_def Clean_def
        clean_step_def fingerprint_def
        reservePorts_def restoreState_def restore_entry_def ErrorOrNil_def
        NewAllocRunner_def Alloc_def zero_Allocation_def emit_def Let_def)

end
